theory Spec2Isabelle
  imports Main
begin

section \<open>Strings\<close>

text \<open>
  The repository is a documentation site: Markdown pages and the configuration module of the
  site generator. Both are text, so the model starts with strings. A \<^typ>\<open>string\<close> is a
  list of 8-bit characters and holds the UTF-8 bytes that the source files hold. Text beyond
  ASCII (the Chinese labels of the navigation) is written by its code points and encoded by
  \<open>utf8\<close>, where \<open>byte n\<close> is the character with the bits of \<open>n\<close>. All of it lies in the
  Basic Multilingual Plane, where a code point is also the single UTF-16 code unit of the
  JavaScript string.
\<close>

definition byte :: "nat \<Rightarrow> char" where
  "byte n =
     Char (odd n) (odd (n div 2)) (odd (n div 4)) (odd (n div 8))
          (odd (n div 16)) (odd (n div 32)) (odd (n div 64)) (odd (n div 128))"

definition utf8_char :: "nat \<Rightarrow> string" where
  "utf8_char n =
     (if n < 0x80 then [byte n]
      else if n < 0x800 then [byte (0xC0 + n div 64), byte (0x80 + n mod 64)]
      else if n < 0x10000 then
        [byte (0xE0 + n div 4096), byte (0x80 + n div 64 mod 64), byte (0x80 + n mod 64)]
      else
        [byte (0xF0 + n div 262144), byte (0x80 + n div 4096 mod 64),
         byte (0x80 + n div 64 mod 64), byte (0x80 + n mod 64)])"

definition utf8 :: "nat list \<Rightarrow> string" where
  "utf8 cps = concat (map utf8_char cps)"

text \<open>
  \<^verbatim>\<open>String.prototype.startsWith\<close>, \<^verbatim>\<open>endsWith\<close> and \<^verbatim>\<open>includes\<close>, each with its
  one-argument form: the search starts at the first unit, respectively ends at the last.
\<close>

fun startsWith :: "'a list \<Rightarrow> 'a list \<Rightarrow> bool" where
  "startsWith s [] = True"
| "startsWith [] (n # ns) = False"
| "startsWith (c # cs) (n # ns) = (c = n \<and> startsWith cs ns)"

definition endsWith :: "'a list \<Rightarrow> 'a list \<Rightarrow> bool" where
  "endsWith s n = startsWith (rev s) (rev n)"

fun js_includes :: "'a list \<Rightarrow> 'a list \<Rightarrow> bool" where
  "js_includes [] n = startsWith [] n"
| "js_includes (c # cs) n = (startsWith (c # cs) n \<or> js_includes cs n)"


section \<open>The configuration module\<close>

subsection \<open>Option values\<close>

text \<open>
  The configuration is one object literal. Its values are strings, numbers, booleans, arrays,
  nested objects and, in one place, a method. An object keeps its properties in the order of
  the source; no literal of the repository repeats a key, so the first binding is the only one.
  A method takes the module id and returns a chunk name or nothing (\<^verbatim>\<open>undefined\<close>).
\<close>

datatype jsval =
    Str string
  | Num int
  | Bool bool
  | Arr "jsval list"
  | Obj "(string \<times> jsval) list"
  | Method "string \<Rightarrow> string option"

fun field :: "string \<Rightarrow> jsval \<Rightarrow> jsval option" where
  "field k (Obj kvs) = map_of kvs k"
| "field k v = None"

fun at_path :: "string list \<Rightarrow> jsval \<Rightarrow> jsval option" where
  "at_path [] v = Some v"
| "at_path (k # ks) v = (case field k v of None \<Rightarrow> None | Some w \<Rightarrow> at_path ks w)"

fun elements :: "jsval option \<Rightarrow> jsval list" where
  "elements (Some (Arr xs)) = xs"
| "elements v = []"

fun entries :: "jsval option \<Rightarrow> (string \<times> jsval) list" where
  "entries (Some (Obj kvs)) = kvs"
| "entries v = []"

text \<open>
  The property paths at which a value holds a function. A value without any is a pure data
  literal.
\<close>

fun methods :: "jsval \<Rightarrow> string list list" where
  "methods (Method f) = [] # []"
| "methods (Arr xs) = concat (map methods xs)"
| "methods (Obj kvs) = concat (map (\<lambda>(k, v). map ((#) k) (methods v)) kvs)"
| "methods v = []"

fun dotted :: "string list \<Rightarrow> string" where
  "dotted [] = []"
| "dotted [k] = k"
| "dotted (k # ks) = k @ ''.'' @ dotted ks"

text \<open>
  The sidebar nests groups: an object with an \<^verbatim>\<open>items\<close> array is a group, any other object
  is a leaf item. \<open>leaves\<close> collects the leaf items below a value, in source order.
\<close>

function leaves :: "jsval \<Rightarrow> jsval list" where
  "leaves (Arr xs) = concat (map leaves xs)"
| "leaves (Obj kvs) =
     (case map_of kvs ''items'' of Some v \<Rightarrow> leaves v | None \<Rightarrow> [Obj kvs])"
| "leaves (Str s) = [Str s]"
| "leaves (Num i) = [Num i]"
| "leaves (Bool b) = [Bool b]"
| "leaves (Method f) = [Method f]"
  by pat_completeness auto
termination
proof (relation "measure size", goal_cases)
  case 1
  show ?case by simp
next
  case (2 xs x)
  then show ?case by (induction xs) auto
next
  case (3 kvs v)
  then have "(''items'', v) \<in> set kvs" by (rule map_of_SomeD)
  then have "size v < Suc (size_list (size_prod (\<lambda>_. 0) size) kvs)"
    by (induction kvs) auto
  then show ?case by simp
qed

definition text_link :: "jsval \<Rightarrow> (string \<times> string) option" where
  "text_link v =
     (case (field ''text'' v, field ''link'' v) of
        (Some (Str t), Some (Str l)) \<Rightarrow> Some (t, l)
      | _ \<Rightarrow> None)"

subsection \<open>The build option \<^verbatim>\<open>manualChunks\<close>\<close>

text \<open>
  \<^verbatim>\<open>manualChunks(id) { if (id.includes('node_modules')) { return 'vendor'; } }\<close>
  A call that falls off the end of the body returns \<^verbatim>\<open>undefined\<close>, here \<open>None\<close>.
\<close>

definition manualChunks :: "string \<Rightarrow> string option" where
  "manualChunks ident =
     (if js_includes ident ''node_modules'' then Some ''vendor'' else None)"

subsection \<open>Modules\<close>

text \<open>
  A configuration module is a list of named imports and one default export. The export is
  an object literal wrapped in calls, as in \<^verbatim>\<open>withMermaid(defineConfig({...}))\<close>. Text that
  follows the export expression and belongs to no statement is kept as \<open>residue\<close>.
\<close>

datatype expr = Call string expr | Literal jsval

record config_module =
  imported :: "(string \<times> string) list"
  default_export :: expr
  residue :: string

fun callees :: "expr \<Rightarrow> string list" where
  "callees (Call f e) = f # callees e"
| "callees (Literal v) = []"

fun literal :: "expr \<Rightarrow> jsval" where
  "literal (Call f e) = literal e"
| "literal (Literal v) = v"

definition options :: "config_module \<Rightarrow> jsval" where
  "options m = literal (default_export m)"

text \<open>
  The diagram plugin takes effect when the module imports \<^verbatim>\<open>withMermaid\<close> from the plugin
  package and passes its configuration through it.
\<close>

definition plugin_applied :: "config_module \<Rightarrow> bool" where
  "plugin_applied m =
     ((''withMermaid'', ''vitepress-plugin-mermaid'') \<in> set (imported m)
      \<and> ''withMermaid'' \<in> set (callees (default_export m)))"

definition nav :: "config_module \<Rightarrow> (string \<times> string) option list" where
  "nav m = map text_link (elements (at_path [''themeConfig'', ''nav''] (options m)))"

definition sidebar :: "config_module \<Rightarrow> (string \<times> jsval) list" where
  "sidebar m = entries (at_path [''themeConfig'', ''sidebar''] (options m))"

definition sidebar_keys :: "config_module \<Rightarrow> string list" where
  "sidebar_keys m = map fst (sidebar m)"

text \<open>Every leaf item of the sidebar with the section key it stands under.\<close>

definition sidebar_items :: "config_module \<Rightarrow> (string \<times> (string \<times> string) option) list" where
  "sidebar_items m =
     concat (map (\<lambda>(k, v). map (\<lambda>i. (k, text_link i)) (leaves v)) (sidebar m))"


text \<open>
  A sidebar section is well formed when its key is a directory route, its value is an array of
  groups, and every leaf item below it has a label and a rooted link.
\<close>

definition is_group :: "jsval \<Rightarrow> bool" where
  "is_group g =
     (case (field ''text'' g, field ''items'' g) of
        (Some (Str t), Some (Arr xs)) \<Rightarrow> True
      | _ \<Rightarrow> False)"

definition labelled :: "jsval \<Rightarrow> bool" where
  "labelled i =
     (case text_link i of Some (t, l) \<Rightarrow> t \<noteq> [] \<and> startsWith l ''/'' | None \<Rightarrow> False)"

definition section_ok :: "string \<times> jsval \<Rightarrow> bool" where
  "section_ok kv =
     (startsWith (fst kv) ''/'' \<and> endsWith (fst kv) ''/''
      \<and> (case snd kv of Arr gs \<Rightarrow> list_all is_group gs | _ \<Rightarrow> False)
      \<and> list_all labelled (leaves (snd kv)))"



subsection \<open>The three configuration modules\<close>

text \<open>
  Three versions of the module are in the repository. \<open>config_mts\<close> is the one at the path
  the site generator loads, \<^verbatim>\<open>src/.vitepress/config.mts\<close>; by their content
  \<open>part_009\<close> is the earliest and \<open>part_008\<close> lies between the two. Comments are not part
  of the model.
\<close>

text \<open>\<^verbatim>\<open>src/unnamed/part_009\<close>\<close>

definition part_009_nav :: jsval where
  "part_009_nav =
    Arr [
      Obj [(''text'', Str (utf8 [0x9996, 0x9875])), (''link'', Str ''/'')],
      Obj [
        (''text'', Str (utf8 [0x5B66, 0x4E60, 0x6307, 0x5357])),
        (''link'', Str ''/guides/'')],
      Obj [(''text'', Str (''API '' @ utf8 [0x53C2, 0x8003])), (''link'', Str ''/api/'')],
      Obj [
        (''text'', Str (utf8 [0x6700, 0x4F73, 0x5B9E, 0x8DF5])),
        (''link'', Str ''/best-practices/'')],
      Obj [(''text'', Str (utf8 [0x793A, 0x4F8B])), (''link'', Str ''/examples/'')]]"

definition part_009_sidebar :: jsval where
  "part_009_sidebar =
    Obj [
      (''/guides/'', Arr [
        Obj [
          (''text'', Str (utf8 [0x5B66, 0x4E60, 0x6307, 0x5357])),
          (''items'', Arr [
            Obj [
              (''text'', Str (utf8 [0x6307, 0x5357, 0x9996, 0x9875])),
              (''link'', Str ''/guides/'')]])],
        Obj [
          (''text'', Str ''React''),
          (''items'', Arr [
            Obj [
              (''text'', Str (''React '' @ utf8 [0x6307, 0x5357])),
              (''link'', Str ''/guides/react/'')],
            Obj [(''text'', Str ''use() API''), (''link'', Str ''/guides/react/use-api'')]])],
        Obj [
          (''text'', Str ''Next.js''),
          (''items'', Arr [
            Obj [
              (''text'', Str (''Next.js '' @ utf8 [0x6307, 0x5357])),
              (''link'', Str ''/guides/nextjs/'')],
            Obj [
              (''text'', Str (''App Router '' @ utf8 [0x6587, 0x4EF6, 0x8DEF, 0x7531, 0x7CFB, 0x7EDF])),
              (''link'', Str ''/guides/nextjs/app-router'')],
            Obj [
              (''text'', Str (''App Router '' @ utf8 [0x8DEF, 0x7531, 0x5BFC, 0x822A])),
              (''link'', Str ''/guides/nextjs/navigation'')]])],
        Obj [
          (''text'', Str ''Node.js''),
          (''items'', Arr [
            Obj [
              (''text'', Str (''Node.js '' @ utf8 [0x6307, 0x5357])),
              (''link'', Str ''/guides/nodejs/'')]])],
        Obj [
          (''text'', Str ''Go''),
          (''items'', Arr [
            Obj [
              (''text'', Str (''Go '' @ utf8 [0x6307, 0x5357])),
              (''link'', Str ''/guides/go/'')]])]]),
      (''/api/'', Arr [
        Obj [
          (''text'', Str (''API '' @ utf8 [0x53C2, 0x8003])),
          (''items'', Arr [
            Obj [(''text'', Str (''API '' @ utf8 [0x9996, 0x9875])), (''link'', Str ''/api/'')]])],
        Obj [
          (''text'', Str ''React''),
          (''items'', Arr [Obj [(''text'', Str ''React API''), (''link'', Str ''/api/react/'')]])],
        Obj [
          (''text'', Str ''Node.js''),
          (''items'', Arr [Obj [(''text'', Str ''Node.js API''), (''link'', Str ''/api/nodejs/'')]])]]),
      (''/best-practices/'', Arr [
        Obj [
          (''text'', Str (utf8 [0x6700, 0x4F73, 0x5B9E, 0x8DF5])),
          (''items'', Arr [
            Obj [
              (''text'', Str (utf8 [0x6700, 0x4F73, 0x5B9E, 0x8DF5, 0x9996, 0x9875])),
              (''link'', Str ''/best-practices/'')]])],
        Obj [
          (''text'', Str ''React''),
          (''items'', Arr [
            Obj [
              (''text'', Str (''React '' @ utf8 [0x6700, 0x4F73, 0x5B9E, 0x8DF5])),
              (''link'', Str ''/best-practices/react/'')]])],
        Obj [
          (''text'', Str ''Node.js''),
          (''items'', Arr [
            Obj [
              (''text'', Str (''Node.js '' @ utf8 [0x6700, 0x4F73, 0x5B9E, 0x8DF5])),
              (''link'', Str ''/best-practices/nodejs/'')]])]]),
      (''/examples/'', Arr [
        Obj [
          (''text'', Str (utf8 [0x793A, 0x4F8B])),
          (''items'', Arr [
            Obj [
              (''text'', Str (utf8 [0x793A, 0x4F8B, 0x9996, 0x9875])),
              (''link'', Str ''/examples/'')],
            Obj [
              (''text'', Str (''Markdown '' @ utf8 [0x793A, 0x4F8B])),
              (''link'', Str ''/examples/markdown-examples'')],
            Obj [
              (''text'', Str (''API '' @ utf8 [0x793A, 0x4F8B])),
              (''link'', Str ''/examples/api-examples'')]])]]),
      (''/meta/'', Arr [
        Obj [
          (''text'', Str (utf8 [0x5143, 0x6587, 0x6863])),
          (''items'', Arr [
            Obj [
              (''text'', Str (utf8 [0x5143, 0x6587, 0x6863, 0x9996, 0x9875])),
              (''link'', Str ''/meta/'')],
            Obj [
              (''text'', Str (''AI '' @ utf8 [0x7F16, 0x5199, 0x6307, 0x5357])),
              (''link'', Str ''/meta/ai-writing-guide'')]])]])]"

definition part_009_options :: jsval where
  "part_009_options =
    Obj [
      (''title'', Str (utf8 [0x6280, 0x672F, 0x6587, 0x6863])),
      (''description'', Str (utf8 [0x6DB5, 0x76D6] @ '' React'' @ utf8 [0x3001] @ ''Next.js'' @ utf8 [0x3001]
            @ ''Node.js'' @ utf8 [0x3001] @ ''Go '' @ utf8 [0x7B49, 0x6280, 0x672F, 0x6808, 0x7684,
            0x5B66, 0x4E60, 0x6307, 0x5357, 0x548C, 0x53C2, 0x8003, 0x6587, 0x6863])),
      (''base'', Str ''/''),
      (''mermaid'', Obj []),
      (''themeConfig'', Obj [
        (''nav'', part_009_nav),
        (''sidebar'', part_009_sidebar),
        (''socialLinks'', Arr [
            Obj [
              (''icon'', Str ''github''),
              (''link'', Str ''https://github.com/vuejs/vitepress'')]])])]"

definition part_009 :: config_module where
  "part_009 =
    \<lparr>imported = [(''defineConfig'', ''vitepress''), (''withMermaid'', ''vitepress-plugin-mermaid'')],
     default_export = Call ''withMermaid'' (Call ''defineConfig'' (Literal part_009_options)),
     residue = ''''\<rparr>"

text \<open>\<^verbatim>\<open>src/unnamed/part_008\<close>\<close>

definition part_008_vite :: jsval where
  "part_008_vite =
    Obj [
      (''optimizeDeps'', Obj [
        (''include'', Arr [Str ''dayjs'', Str ''@braintree/sanitize-url'', Str ''mermaid'']),
        (''esbuildOptions'', Obj [
          (''target'', Str ''esnext''),
          (''mainFields'', Arr [Str ''module'', Str ''main'']),
          (''format'', Str ''esm'')])]),
      (''resolve'', Obj [
        (''dedupe'', Arr [Str ''dayjs'', Str ''@braintree/sanitize-url'']),
        (''preserveSymlinks'', Bool False)]),
      (''ssr'', Obj [(''noExternal'', Arr [Str ''mermaid''])])]"

definition part_008_nav :: jsval where
  "part_008_nav =
    Arr [
      Obj [(''text'', Str (utf8 [0x9996, 0x9875])), (''link'', Str ''/'')],
      Obj [
        (''text'', Str (utf8 [0x5B66, 0x4E60, 0x6307, 0x5357])),
        (''link'', Str ''/guides/'')],
      Obj [(''text'', Str (''API '' @ utf8 [0x53C2, 0x8003])), (''link'', Str ''/api/'')],
      Obj [
        (''text'', Str (utf8 [0x6700, 0x4F73, 0x5B9E, 0x8DF5])),
        (''link'', Str ''/best-practices/'')],
      Obj [(''text'', Str (utf8 [0x793A, 0x4F8B])), (''link'', Str ''/examples/'')]]"

definition part_008_sidebar :: jsval where
  "part_008_sidebar =
    Obj [
      (''/guides/'', Arr [
        Obj [
          (''text'', Str (utf8 [0x5B66, 0x4E60, 0x6307, 0x5357])),
          (''items'', Arr [
            Obj [
              (''text'', Str (utf8 [0x6307, 0x5357, 0x9996, 0x9875])),
              (''link'', Str ''/guides/'')]])],
        Obj [
          (''text'', Str (utf8 [0x524D, 0x7AEF, 0x901A, 0x7528, 0x77E5, 0x8BC6])),
          (''items'', Arr [
            Obj [
              (''text'', Str (utf8 [0x524D, 0x7AEF, 0x6E32, 0x67D3, 0x6A21, 0x5F0F, 0xFF1A] @ ''CSR''
                    @ utf8 [0x3001] @ ''SSR'' @ utf8 [0x3001] @ ''SSG'')),
              (''link'', Str ''/guides/general/rendering-modes'')]])],
        Obj [
          (''text'', Str ''React''),
          (''items'', Arr [
            Obj [
              (''text'', Str (''React '' @ utf8 [0x6307, 0x5357])),
              (''link'', Str ''/guides/react/'')],
            Obj [(''text'', Str ''use() API''), (''link'', Str ''/guides/react/use-api'')]])],
        Obj [
          (''text'', Str ''Next.js''),
          (''items'', Arr [
            Obj [
              (''text'', Str (''Next.js '' @ utf8 [0x6307, 0x5357])),
              (''link'', Str ''/guides/nextjs/'')],
            Obj [
              (''text'', Str (''App Router '' @ utf8 [0x6587, 0x4EF6, 0x8DEF, 0x7531, 0x7CFB, 0x7EDF])),
              (''link'', Str ''/guides/nextjs/app-router'')],
            Obj [
              (''text'', Str (''App Router '' @ utf8 [0x8DEF, 0x7531, 0x5BFC, 0x822A])),
              (''link'', Str ''/guides/nextjs/navigation'')]])],
        Obj [
          (''text'', Str ''Node.js''),
          (''items'', Arr [
            Obj [
              (''text'', Str (''Node.js '' @ utf8 [0x6307, 0x5357])),
              (''link'', Str ''/guides/nodejs/'')]])],
        Obj [
          (''text'', Str ''Go''),
          (''items'', Arr [
            Obj [
              (''text'', Str (''Go '' @ utf8 [0x6307, 0x5357])),
              (''link'', Str ''/guides/go/'')]])]]),
      (''/api/'', Arr [
        Obj [
          (''text'', Str (''API '' @ utf8 [0x53C2, 0x8003])),
          (''items'', Arr [
            Obj [(''text'', Str (''API '' @ utf8 [0x9996, 0x9875])), (''link'', Str ''/api/'')]])],
        Obj [
          (''text'', Str ''React''),
          (''items'', Arr [Obj [(''text'', Str ''React API''), (''link'', Str ''/api/react/'')]])],
        Obj [
          (''text'', Str ''Node.js''),
          (''items'', Arr [Obj [(''text'', Str ''Node.js API''), (''link'', Str ''/api/nodejs/'')]])]]),
      (''/best-practices/'', Arr [
        Obj [
          (''text'', Str (utf8 [0x6700, 0x4F73, 0x5B9E, 0x8DF5])),
          (''items'', Arr [
            Obj [
              (''text'', Str (utf8 [0x6700, 0x4F73, 0x5B9E, 0x8DF5, 0x9996, 0x9875])),
              (''link'', Str ''/best-practices/'')]])],
        Obj [
          (''text'', Str ''React''),
          (''items'', Arr [
            Obj [
              (''text'', Str (''React '' @ utf8 [0x6700, 0x4F73, 0x5B9E, 0x8DF5])),
              (''link'', Str ''/best-practices/react/'')]])],
        Obj [
          (''text'', Str ''Node.js''),
          (''items'', Arr [
            Obj [
              (''text'', Str (''Node.js '' @ utf8 [0x6700, 0x4F73, 0x5B9E, 0x8DF5])),
              (''link'', Str ''/best-practices/nodejs/'')]])]]),
      (''/examples/'', Arr [
        Obj [
          (''text'', Str (utf8 [0x793A, 0x4F8B])),
          (''items'', Arr [
            Obj [
              (''text'', Str (utf8 [0x793A, 0x4F8B, 0x9996, 0x9875])),
              (''link'', Str ''/examples/'')],
            Obj [
              (''text'', Str (''Markdown '' @ utf8 [0x793A, 0x4F8B])),
              (''link'', Str ''/examples/markdown-examples'')],
            Obj [
              (''text'', Str (''API '' @ utf8 [0x793A, 0x4F8B])),
              (''link'', Str ''/examples/api-examples'')]])]]),
      (''/meta/'', Arr [
        Obj [
          (''text'', Str (utf8 [0x5143, 0x6587, 0x6863])),
          (''items'', Arr [
            Obj [
              (''text'', Str (utf8 [0x5143, 0x6587, 0x6863, 0x9996, 0x9875])),
              (''link'', Str ''/meta/'')],
            Obj [
              (''text'', Str (''AI '' @ utf8 [0x7F16, 0x5199, 0x6307, 0x5357])),
              (''link'', Str ''/meta/ai-writing-guide'')]])]])]"

definition part_008_options :: jsval where
  "part_008_options =
    Obj [
      (''title'', Str (utf8 [0x6280, 0x672F, 0x6587, 0x6863])),
      (''description'', Str (utf8 [0x6DB5, 0x76D6] @ '' React'' @ utf8 [0x3001] @ ''Next.js'' @ utf8 [0x3001]
            @ ''Node.js'' @ utf8 [0x3001] @ ''Go '' @ utf8 [0x7B49, 0x6280, 0x672F, 0x6808, 0x7684,
            0x5B66, 0x4E60, 0x6307, 0x5357, 0x548C, 0x53C2, 0x8003, 0x6587, 0x6863])),
      (''base'', Str ''/''),
      (''mermaid'', Obj []),
      (''vite'', part_008_vite),
      (''themeConfig'', Obj [
        (''nav'', part_008_nav),
        (''sidebar'', part_008_sidebar),
        (''socialLinks'', Arr [
            Obj [
              (''icon'', Str ''github''),
              (''link'', Str ''https://github.com/vuejs/vitepress'')]])])]"

definition part_008 :: config_module where
  "part_008 =
    \<lparr>imported = [(''defineConfig'', ''vitepress''), (''withMermaid'', ''vitepress-plugin-mermaid'')],
     default_export = Call ''withMermaid'' (Call ''defineConfig'' (Literal part_008_options)),
     residue = ''''\<rparr>"

text \<open>\<^verbatim>\<open>src/.vitepress/config.mts\<close>\<close>

definition config_mts_vite :: jsval where
  "config_mts_vite =
    Obj [
      (''optimizeDeps'', Obj [
        (''include'', Arr [Str ''@braintree/sanitize-url'', Str ''mermaid'', Str ''vue'']),
        (''esbuildOptions'', Obj [
          (''target'', Str ''esnext''),
          (''mainFields'', Arr [Str ''module'', Str ''main'']),
          (''format'', Str ''esm'')])]),
      (''cacheDir'', Str ''.vitepress/cache''),
      (''build'', Obj [
        (''rollupOptions'', Obj [(''output'', Obj [(''manualChunks'', Method manualChunks)])]),
        (''minify'', Str ''esbuild''),
        (''sourcemap'', Bool False)]),
      (''server'', Obj [
        (''hmr'', Obj [(''overlay'', Bool True)]),
        (''warmup'', Obj [
          (''clientFiles'', Arr [Str ''./.vitepress/theme/index.ts'', Str ''./.vitepress/theme/style.css''])])]),
      (''resolve'', Obj [(''dedupe'', Arr [Str ''@braintree/sanitize-url'', Str ''vue''])])]"

definition config_mts_nav :: jsval where
  "config_mts_nav =
    Arr [
      Obj [(''text'', Str (utf8 [0x9996, 0x9875])), (''link'', Str ''/'')],
      Obj [
        (''text'', Str (utf8 [0x5B66, 0x4E60, 0x6307, 0x5357])),
        (''link'', Str ''/guides/'')],
      Obj [(''text'', Str (''API '' @ utf8 [0x53C2, 0x8003])), (''link'', Str ''/api/'')],
      Obj [
        (''text'', Str (utf8 [0x6700, 0x4F73, 0x5B9E, 0x8DF5])),
        (''link'', Str ''/best-practices/'')],
      Obj [(''text'', Str (utf8 [0x793A, 0x4F8B])), (''link'', Str ''/examples/'')]]"

definition config_mts_sidebar :: jsval where
  "config_mts_sidebar =
    Obj [
      (''/guides/'', Arr [
        Obj [
          (''text'', Str (utf8 [0x5B66, 0x4E60, 0x6307, 0x5357])),
          (''items'', Arr [
            Obj [
              (''text'', Str (utf8 [0x6307, 0x5357, 0x9996, 0x9875])),
              (''link'', Str ''/guides/'')]])],
        Obj [
          (''text'', Str (utf8 [0x524D, 0x7AEF, 0x901A, 0x7528, 0x77E5, 0x8BC6])),
          (''items'', Arr [
            Obj [
              (''text'', Str (utf8 [0x524D, 0x7AEF, 0x6E32, 0x67D3, 0x6A21, 0x5F0F, 0xFF1A] @ ''CSR''
                    @ utf8 [0x3001] @ ''SSR'' @ utf8 [0x3001] @ ''SSG'')),
              (''link'', Str ''/guides/general/rendering-modes'')],
            Obj [
              (''text'', Str (utf8 [0x7F51, 0x7EDC, 0x4E0E, 0x901A, 0x4FE1, 0xFF1A] @ ''HTTP''
                    @ utf8 [0x3001, 0x7F13, 0x5B58, 0x3001] @ ''HTTPS'')),
              (''link'', Str ''/guides/general/network-communication'')],
            Obj [
              (''text'', Str (utf8 [0x8BA4, 0x8BC1, 0x673A, 0x5236, 0xFF1A] @ ''Cookie'' @ utf8 [0x3001]
                    @ ''Token'' @ utf8 [0x3001] @ ''Session'')),
              (''link'', Str ''/guides/general/authentication'')]])],
        Obj [
          (''text'', Str ''React''),
          (''items'', Arr [
            Obj [
              (''text'', Str (''React '' @ utf8 [0x6307, 0x5357])),
              (''link'', Str ''/guides/react/'')],
            Obj [
              (''text'', Str (''Hooks '' @ utf8 [0x6982, 0x89C8])),
              (''link'', Str ''/guides/react/hooks/'')],
            Obj [(''text'', Str ''use() API''), (''link'', Str ''/guides/react/use-api'')],
            Obj [
              (''text'', Str (utf8 [0x6838, 0x5FC3] @ '' Hooks'')),
              (''collapsed'', Bool True),
              (''items'', Arr [
                Obj [
                  (''text'', Str ''useState''),
                  (''link'', Str ''/guides/react/hooks/useState'')],
                Obj [
                  (''text'', Str ''useReducer''),
                  (''link'', Str ''/guides/react/hooks/useReducer'')],
                Obj [
                  (''text'', Str ''useEffect''),
                  (''link'', Str ''/guides/react/hooks/useEffect'')],
                Obj [
                  (''text'', Str ''useRef''),
                  (''link'', Str ''/guides/react/hooks/useRef'')],
                Obj [
                  (''text'', Str ''useCallback/useMemo''),
                  (''link'', Str ''/guides/react/hooks/useCallback-useMemo'')],
                Obj [
                  (''text'', Str (utf8 [0x81EA, 0x5B9A, 0x4E49] @ '' Hooks'')),
                  (''link'', Str ''/guides/react/hooks/custom-hooks'')]])]])],
        Obj [
          (''text'', Str ''Next.js''),
          (''items'', Arr [
            Obj [
              (''text'', Str (''Next.js '' @ utf8 [0x6307, 0x5357])),
              (''link'', Str ''/guides/nextjs/'')],
            Obj [
              (''text'', Str (''App Router '' @ utf8 [0x6587, 0x4EF6, 0x8DEF, 0x7531, 0x7CFB, 0x7EDF])),
              (''link'', Str ''/guides/nextjs/app-router'')],
            Obj [
              (''text'', Str (''App Router '' @ utf8 [0x8DEF, 0x7531, 0x5BFC, 0x822A])),
              (''link'', Str ''/guides/nextjs/navigation'')],
            Obj [
              (''text'', Str (utf8 [0x8DEF, 0x7531, 0x7EC4])),
              (''link'', Str ''/guides/nextjs/route-groups'')],
            Obj [
              (''text'', Str (utf8 [0x670D, 0x52A1, 0x7AEF, 0x8DEF, 0x7531, 0x5904, 0x7406, 0x7A0B, 0x5E8F])),
              (''link'', Str ''/guides/nextjs/router-handle'')],
            Obj [
              (''text'', Str (''Proxy'' @ utf8 [0xFF08, 0x4EE3, 0x7406, 0xFF09])),
              (''link'', Str ''/guides/nextjs/proxy'')],
            Obj [
              (''text'', Str (utf8 [0x8FDB, 0x9636, 0x4E3B, 0x9898])),
              (''collapsed'', Bool True),
              (''items'', Arr [
                Obj [
                  (''text'', Str (utf8 [0x6570, 0x636E, 0x83B7, 0x53D6])),
                  (''link'', Str ''/guides/nextjs/data-fetching'')],
                Obj [
                  (''text'', Str (utf8 [0x7F13, 0x5B58, 0x673A, 0x5236])),
                  (''link'', Str ''/guides/nextjs/caching'')],
                Obj [
                  (''text'', Str ''Middleware''),
                  (''link'', Str ''/guides/nextjs/middleware'')],
                Obj [
                  (''text'', Str (utf8 [0x9519, 0x8BEF, 0x5904, 0x7406])),
                  (''link'', Str ''/guides/nextjs/error-handling'')]])]])],
        Obj [
          (''text'', Str ''Node.js''),
          (''items'', Arr [
            Obj [
              (''text'', Str (''Node.js '' @ utf8 [0x6307, 0x5357])),
              (''link'', Str ''/guides/nodejs/'')]])],
        Obj [
          (''text'', Str ''Go''),
          (''items'', Arr [
            Obj [
              (''text'', Str (''Go '' @ utf8 [0x6307, 0x5357])),
              (''link'', Str ''/guides/go/'')]])]]),
      (''/api/'', Arr [
        Obj [
          (''text'', Str (''API '' @ utf8 [0x53C2, 0x8003])),
          (''items'', Arr [
            Obj [(''text'', Str (''API '' @ utf8 [0x9996, 0x9875])), (''link'', Str ''/api/'')]])],
        Obj [
          (''text'', Str ''React''),
          (''items'', Arr [Obj [(''text'', Str ''React API''), (''link'', Str ''/api/react/'')]])],
        Obj [
          (''text'', Str ''Node.js''),
          (''items'', Arr [Obj [(''text'', Str ''Node.js API''), (''link'', Str ''/api/nodejs/'')]])]]),
      (''/best-practices/'', Arr [
        Obj [
          (''text'', Str (utf8 [0x6700, 0x4F73, 0x5B9E, 0x8DF5])),
          (''items'', Arr [
            Obj [
              (''text'', Str (utf8 [0x6700, 0x4F73, 0x5B9E, 0x8DF5, 0x9996, 0x9875])),
              (''link'', Str ''/best-practices/'')]])],
        Obj [
          (''text'', Str ''React''),
          (''items'', Arr [
            Obj [
              (''text'', Str (''React '' @ utf8 [0x6700, 0x4F73, 0x5B9E, 0x8DF5])),
              (''link'', Str ''/best-practices/react/'')]])],
        Obj [
          (''text'', Str ''Node.js''),
          (''items'', Arr [
            Obj [
              (''text'', Str (''Node.js '' @ utf8 [0x6700, 0x4F73, 0x5B9E, 0x8DF5])),
              (''link'', Str ''/best-practices/nodejs/'')]])]]),
      (''/examples/'', Arr [
        Obj [
          (''text'', Str (utf8 [0x793A, 0x4F8B])),
          (''items'', Arr [
            Obj [
              (''text'', Str (utf8 [0x793A, 0x4F8B, 0x9996, 0x9875])),
              (''link'', Str ''/examples/'')],
            Obj [
              (''text'', Str (''Markdown '' @ utf8 [0x793A, 0x4F8B])),
              (''link'', Str ''/examples/markdown-examples'')],
            Obj [
              (''text'', Str (''API '' @ utf8 [0x793A, 0x4F8B])),
              (''link'', Str ''/examples/api-examples'')]])]]),
      (''/meta/'', Arr [
        Obj [
          (''text'', Str (utf8 [0x5143, 0x6587, 0x6863])),
          (''items'', Arr [
            Obj [
              (''text'', Str (utf8 [0x5143, 0x6587, 0x6863, 0x9996, 0x9875])),
              (''link'', Str ''/meta/'')],
            Obj [
              (''text'', Str (''AI '' @ utf8 [0x7F16, 0x5199, 0x6307, 0x5357])),
              (''link'', Str ''/meta/ai-writing-guide'')]])]])]"

definition config_mts_options :: jsval where
  "config_mts_options =
    Obj [
      (''title'', Str (utf8 [0x6280, 0x672F, 0x6587, 0x6863])),
      (''description'', Str (utf8 [0x6DB5, 0x76D6] @ '' React'' @ utf8 [0x3001] @ ''Next.js'' @ utf8 [0x3001]
            @ ''Node.js'' @ utf8 [0x3001] @ ''Go '' @ utf8 [0x7B49, 0x6280, 0x672F, 0x6808, 0x7684,
            0x5B66, 0x4E60, 0x6307, 0x5357, 0x548C, 0x53C2, 0x8003, 0x6587, 0x6863])),
      (''base'', Str ''/''),
      (''mermaid'', Obj [(''theme'', Str ''default'')]),
      (''vite'', config_mts_vite),
      (''themeConfig'', Obj [
        (''nav'', config_mts_nav),
        (''sidebar'', config_mts_sidebar),
        (''outline'', Obj [(''level'', Arr [Num 2, Num 3]), (''label'', Str (utf8 [0x76EE, 0x5F55]))]),
        (''socialLinks'', Arr [
            Obj [
              (''icon'', Str ''github''),
              (''link'', Str ''https://github.com/vuejs/vitepress'')]]),
        (''search'', Obj [(''provider'', Str ''local'')])])]"

definition config_mts :: config_module where
  "config_mts =
    \<lparr>imported = [(''defineConfig'', ''vitepress'')],
     default_export = Call ''defineConfig'' (Literal config_mts_options),
     residue = '')''\<rparr>"


section \<open>Markdown documents\<close>

text \<open>
  The repository has no parser of its own: the pages are read by the site generator. The
  functions of this section state the line syntax that it applies, code fences, frontmatter
  and containers, so that the properties of the pages can be stated and evaluated; the
  documents themselves are transcribed from the source files.

  A document is a list of lines. The pages are long prose, and what the site generator treats
  structurally is a small part of them, so the model keeps verbatim
  \<^item> the frontmatter block of a document that starts with a \<^verbatim>\<open>---\<close> line and has a later one,
    delimiters included, and
  \<^item> every line that starts, after leading spaces, with \<^verbatim>\<open>---\<close>, \<^verbatim>\<open>:::\<close>, three backquotes,
    \<^verbatim>\<open>~~~\<close> or \<^verbatim>\<open><script\<close>,

  and records each maximal run of other lines by its length: \<open>Elided n\<close> stands for \<open>n\<close>
  consecutive lines none of which starts, after leading spaces, with one of these prefixes.
  No line of the repository starts with \<^verbatim>\<open>~~~\<close>, none is indented by a tab, and none
  holds a carriage return.
\<close>

datatype md_line = Line string | Elided nat

definition verbatim :: "md_line list \<Rightarrow> string list" where
  "verbatim doc = concat (map (\<lambda>l. case l of Line s \<Rightarrow> [s] | Elided n \<Rightarrow> []) doc)"

definition lstrip :: "string \<Rightarrow> string" where
  "lstrip s = dropWhile (\<lambda>c. c = CHR '' '') s"

definition indent :: "string \<Rightarrow> nat" where
  "indent s = length (takeWhile (\<lambda>c. c = CHR '' '') s)"

definition blank :: "string \<Rightarrow> bool" where
  "blank s = (lstrip s = [])"

subsection \<open>Code fences\<close>

text \<open>
  A fence opens on a line indented by at most three spaces that starts with three or more
  backquotes; the rest of the line is its info string. It closes on a line, again indented by
  at most three spaces, of at least as many backquotes and nothing else. The scanner's state
  is the length of the open fence, \<open>0\<close> outside.
\<close>

definition ticks :: "string \<Rightarrow> nat" where
  "ticks s = length (takeWhile (\<lambda>c. c = CHR 0x60) (lstrip s))"

definition info :: "string \<Rightarrow> string" where
  "info s = dropWhile (\<lambda>c. c = CHR 0x60) (lstrip s)"

definition fence_step :: "nat \<Rightarrow> string \<Rightarrow> nat" where
  "fence_step n s =
     (if n = 0 then (if indent s < 4 \<and> 3 \<le> ticks s then ticks s else 0)
      else if indent s < 4 \<and> n \<le> ticks s \<and> blank (info s) then 0
      else n)"

text \<open>The kept lines that are neither inside a fence nor a fence line themselves.\<close>

fun outside :: "nat \<Rightarrow> md_line list \<Rightarrow> string list" where
  "outside n [] = []"
| "outside n (Elided k # ls) = outside n ls"
| "outside n (Line s # ls) =
     (if n = 0 \<and> fence_step n s = 0 then s # outside 0 ls
      else outside (fence_step n s) ls)"

definition block_lines :: "md_line list \<Rightarrow> string list" where
  "block_lines doc = outside 0 doc"

text \<open>The info strings of the fences that open at block level.\<close>

fun fences :: "nat \<Rightarrow> md_line list \<Rightarrow> string list" where
  "fences n [] = []"
| "fences n (Elided k # ls) = fences n ls"
| "fences n (Line s # ls) =
     (if n = 0 \<and> 0 < fence_step n s then info s # fences (fence_step n s) ls
      else fences (fence_step n s) ls)"

definition diagram_blocks :: "md_line list \<Rightarrow> nat" where
  "diagram_blocks doc = length (filter (\<lambda>i. i = ''mermaid'') (fences 0 doc))"

subsection \<open>Frontmatter\<close>

text \<open>
  The frontmatter parser: the first line must be the delimiter, and the block runs to the
  next delimiter. An elided run cannot hold a delimiter, and the lines of a delimited block are
  never elided, so meeting one before the closing delimiter means that there is none.
\<close>

fun until_delimiter :: "md_line list \<Rightarrow> string list option" where
  "until_delimiter [] = None"
| "until_delimiter (Elided k # ls) = None"
| "until_delimiter (Line s # ls) =
     (if s = ''---'' then Some [] else map_option ((#) s) (until_delimiter ls))"

fun frontmatter :: "md_line list \<Rightarrow> string list option" where
  "frontmatter (Line s # ls) = (if s = ''---'' then until_delimiter ls else None)"
| "frontmatter ls = None"

text \<open>
  A line of YAML metadata: blank, a comment, or a key followed by a colon, possibly indented
  and possibly the first key of a sequence entry (\<^verbatim>\<open>- key: value\<close>).
\<close>

definition key_char :: "char \<Rightarrow> bool" where
  "key_char c = (c \<in> set ''abcdefghijklmnopqrstuvwxyzABCDEFGHIJKLMNOPQRSTUVWXYZ0123456789_-'')"

definition yaml_entry :: "string \<Rightarrow> bool" where
  "yaml_entry s =
     (let t = lstrip s;
          u = (if startsWith t ''- '' then drop 2 t else t);
          k = takeWhile key_char u;
          r = dropWhile key_char u
      in k \<noteq> [] \<and> (r = '':'' \<or> startsWith r '': ''))"

definition yaml_line :: "string \<Rightarrow> bool" where
  "yaml_line s = (blank s \<or> startsWith (lstrip s) ''#'' \<or> yaml_entry s)"

subsection \<open>Containers\<close>

text \<open>
  A container opens on a line that begins with \<^verbatim>\<open>:::\<close> and names its kind, and closes on a
  line of colons alone. \<open>balanced\<close> scans with the nesting depth: a closing line needs an
  open container, and at the end none may be open.
\<close>

definition container_open :: "string \<Rightarrow> bool" where
  "container_open s = (startsWith s '':::'' \<and> \<not> blank (dropWhile (\<lambda>c. c = CHR '':'') s))"

definition container_close :: "string \<Rightarrow> bool" where
  "container_close s = (startsWith s '':::'' \<and> blank (dropWhile (\<lambda>c. c = CHR '':'') s))"

definition container_lines :: "string list \<Rightarrow> string list" where
  "container_lines ls = filter (\<lambda>s. startsWith s '':::'') ls"

fun balanced :: "nat \<Rightarrow> string list \<Rightarrow> bool" where
  "balanced d [] = (d = 0)"
| "balanced d (s # ss) =
     (if container_open s then balanced (Suc d) ss
      else if container_close s then 0 < d \<and> balanced (d - 1) ss
      else balanced d ss)"

subsection \<open>Script blocks\<close>

text \<open>
  The site generator runs a \<^verbatim>\<open><script>\<close> element of a page when it stands at block level;
  inside a code fence it is sample text.
\<close>

definition script_lines :: "md_line list \<Rightarrow> string list" where
  "script_lines doc = filter (\<lambda>s. startsWith (lstrip s) ''<script'') (block_lines doc)"

subsection \<open>The documents\<close>

text \<open>
  A file of the repository holds one document, or several one after the other, set apart by
  a separator marker that belongs to no document. Every document below is named after its
  file; a numeric suffix counts the documents that follow the first.
\<close>


text \<open>\<^verbatim>\<open>src/examples/markdown-examples.md\<close> (117 lines)\<close>

definition examples_markdown_examples_md :: "md_line list" where
  "examples_markdown_examples_md =
    [Elided 12, Line ''````md'', Line ''```js{4}'', Elided 7, Line ''```'', Line ''````'',
     Elided 3, Line ''```js{4}'', Elided 7, Line ''```'', Elided 5, Line ''```md'',
     Line ''::: info'', Elided 1, Line '':::'', Elided 1, Line ''::: tip'', Elided 1,
     Line '':::'', Elided 1, Line ''::: warning'', Elided 1, Line '':::'', Elided 1,
     Line ''::: danger'', Elided 1, Line '':::'', Elided 1, Line ''::: details'', Elided 1,
     Line '':::'', Line ''```'', Elided 3, Line ''::: info'', Elided 1, Line '':::'', Elided 1,
     Line ''::: tip'', Elided 1, Line '':::'', Elided 1, Line ''::: warning'', Elided 1,
     Line '':::'', Elided 1, Line ''::: danger'', Elided 1, Line '':::'', Elided 1,
     Line ''::: details'', Elided 1, Line '':::'', Elided 7, Line ''````md'',
     Line ''```mermaid'', Elided 6, Line ''```'', Line ''````'', Elided 3, Line ''```mermaid'',
     Elided 6, Line ''```'', Elided 6]"

text \<open>\<^verbatim>\<open>src/guides/general/network-communication.md\<close> (380 lines)\<close>

definition guides_general_network_communication_md :: "md_line list" where
  "guides_general_network_communication_md =
    [Line ''---'', Line ''outline: deep'', Line ''---'', Elided 18, Line ''   ```'', Elided 1,
     Line ''   ```'', Elided 2, Line ''   ```'', Elided 5, Line ''   ```'', Elided 8,
     Line ''   ```'', Elided 1, Line ''   ```'', Elided 2, Line ''   ```'', Elided 3,
     Line ''   ```'', Elided 85, Line ''```mermaid'', Elided 10, Line ''```'', Elided 15,
     Line ''```'', Elided 5, Line ''```'', Elided 2, Line ''```'', Elided 1, Line ''```'',
     Elided 6, Line ''```'', Elided 2, Line ''```'', Elided 2, Line ''```'', Elided 2,
     Line ''```'', Elided 3, Line ''```mermaid'', Elided 22, Line ''```'', Elided 3,
     Line (''::: tip '' @ utf8 [0x63D0, 0x793A]), Elided 4, Line '':::'', Elided 27,
     Line ''```'', Elided 2, Line ''```'', Elided 5, Line ''```'', Elided 2, Line ''```'',
     Elided 7, Line ''```mermaid'', Elided 13, Line ''```'', Elided 31, Line ''```mermaid'',
     Elided 21, Line ''```'', Elided 12, Line (''::: warning '' @ utf8 [0x6CE8, 0x610F]),
     Elided 4, Line '':::'', Elided 19]"

text \<open>\<^verbatim>\<open>src/guides/general/rendering-modes.md\<close> (1253 lines)\<close>

definition guides_general_rendering_modes_md :: "md_line list" where
  "guides_general_rendering_modes_md =
    [Line ''---'', Line ''outline: deep'', Line ''---'', Elided 23,
     Line (''::: tip '' @ utf8 [0x6838, 0x5FC3, 0x7406, 0x89E3]), Elided 1, Line '':::'',
     Elided 11, Line ''```mermaid'', Elided 14, Line ''```'', Elided 7, Line ''```html'',
     Elided 8,
     Line (''    <script src='' @ utf8 [0x22] @ ''/app.js'' @ utf8 [0x22] @ ''></script>''),
     Elided 2, Line ''```'', Elided 5, Line ''```jsx'', Elided 8, Line ''```'', Elided 32,
     Line ''```jsx'', Elided 30, Line ''```'', Elided 1, Line ''```jsx'', Elided 8, Line ''```'',
     Elided 16, Line (''::: warning '' @ utf8 [0x91CD, 0x8981, 0x4FEE, 0x6B63]), Elided 1,
     Line '':::'', Elided 3, Line ''```mermaid'', Elided 16, Line ''```'', Elided 7,
     Line ''```jsx'', Elided 16,
     Line (''        <script src='' @ utf8 [0x22] @ ''/app.js'' @ utf8 [0x22] @ ''></script>''),
     Elided 4, Line ''```'', Elided 5, Line ''```jsx'', Elided 10, Line ''```'', Elided 6,
     Line (''::: tip '' @ utf8 [0x7406, 0x89E3] @ '' Hydration''), Elided 1, Line '':::'',
     Elided 26, Line ''```jsx'', Elided 23, Line ''```'', Elided 3, Line ''```tsx'', Elided 15,
     Line ''```'', Elided 16, Line (''::: tip '' @ utf8 [0x5173, 0x952E, 0x7406, 0x89E3]),
     Elided 1, Line '':::'', Elided 3, Line ''```mermaid'', Elided 18, Line ''```'', Elided 3,
     Line ''```mermaid'', Elided 15, Line ''```'', Elided 7, Line ''```jsx'', Elided 25,
     Line ''```'', Elided 5, Line ''```'', Elided 10, Line ''```'', Elided 27, Line ''```jsx'',
     Elided 32, Line ''```'', Elided 3, Line ''```tsx'', Elided 24, Line ''```'', Elided 27,
     Line ''```mermaid'', Elided 23, Line ''```'', Elided 28, Line ''```tsx'', Elided 24,
     Line ''```'', Elided 9, Line ''```jsx'', Elided 14, Line ''```'', Elided 3, Line ''```tsx'',
     Elided 18, Line ''```'', Elided 5, Line ''```jsx'', Elided 7, Line ''```'', Elided 3,
     Line ''```jsx'', Elided 16, Line ''```'', Elided 5, Line ''```vue'', Elided 5,
     Line ''<script setup>'', Elided 2, Line ''```'', Elided 1, Line ''```vue'', Elided 1,
     Line ''<script setup>'', Elided 4, Line ''```'', Elided 30, Line ''```mermaid'', Elided 21,
     Line ''```'', Elided 3, Line ''```jsx'', Elided 18, Line ''```'', Elided 12,
     Line ''```mermaid'', Elided 15, Line ''```'', Elided 3, Line ''```tsx'', Elided 11,
     Line ''```'', Elided 10, Line ''```mermaid'', Elided 16, Line ''```'', Elided 10,
     Line ''```tsx'', Elided 21, Line ''```'', Elided 8, Line ''   ```jsx'', Elided 10,
     Line ''   ```'', Elided 2, Line ''   ```html'', Elided 2, Line ''   ```'', Elided 2,
     Line ''   ```jsx'', Elided 2, Line ''   ```'', Elided 4, Line ''   ```tsx'', Elided 7,
     Line ''   ```'', Elided 2, Line ''   ```tsx'', Elided 11, Line ''   ```'', Elided 2,
     Line ''   ```tsx'', Elided 6, Line ''   ```'', Elided 4, Line ''   ```tsx'', Elided 7,
     Line ''   ```'', Elided 18, Line ''   ```html'', Elided 10, Line ''   ```'', Elided 2,
     Line ''   ```tsx'', Elided 11, Line ''   ```'', Elided 2, Line ''   ```json'', Elided 9,
     Line ''   ```'', Elided 14, Line ''   ```json'', Elided 8, Line ''   ```'', Elided 2,
     Line ''   ```tsx'', Elided 18, Line ''   ```'', Elided 2, Line ''   ```tsx'', Elided 11,
     Line ''   ```'', Elided 120]"

text \<open>\<^verbatim>\<open>src/guides/nextjs/app-router.md\<close> (899 lines)\<close>

definition guides_nextjs_app_router_md :: "md_line list" where
  "guides_nextjs_app_router_md =
    [Line ''---'', Line ''outline: deep'', Line ''---'', Elided 26,
     Line (''::: tip '' @ utf8 [0x8FC1, 0x79FB, 0x5EFA, 0x8BAE]), Elided 1, Line '':::'',
     Elided 9, Line ''```tsx'', Elided 9, Line ''```'', Elided 3,
     Line (''::: warning '' @ utf8 [0x91CD, 0x8981, 0x63D0, 0x793A]), Elided 1, Line '':::'',
     Elided 5, Line ''```tsx'', Elided 16, Line ''```'', Elided 1, Line ''```tsx'', Elided 13,
     Line ''```'', Elided 1, Line (''::: tip '' @ utf8 [0x6839, 0x5E03, 0x5C40]), Elided 1,
     Line '':::'', Elided 10, Line ''```tsx'', Elided 14, Line ''```'', Elided 10,
     Line ''```tsx'', Elided 8, Line ''```'', Elided 6, Line ''```tsx'', Elided 6, Line ''```'',
     Elided 5, Line ''```tsx'', Elided 18, Line ''```'', Elided 11, Line ''```tsx'', Elided 9,
     Line ''```'', Elided 1, Line ''```tsx'', Elided 8, Line ''```'', Elided 3, Line ''```tsx'',
     Elided 12, Line ''```'', Elided 5, Line ''```tsx'', Elided 13, Line ''```'', Elided 9,
     Line ''```'', Elided 8, Line ''```'', Elided 11, Line ''```tsx'', Elided 29, Line ''```'',
     Elided 2, Line ''```'', Elided 3, Line ''```'', Elided 7, Line ''```tsx'', Elided 20,
     Line ''```'', Elided 10, Line ''```tsx'', Elided 19, Line ''```'', Elided 16,
     Line (''::: tip '' @ utf8 [0x6700, 0x4F73, 0x5B9E, 0x8DF5]), Elided 1, Line '':::'',
     Elided 7, Line ''```tsx'', Elided 11, Line ''```'', Elided 11, Line ''```tsx'', Elided 12,
     Line ''```'', Elided 10, Line ''```tsx'', Elided 12, Line ''```'', Elided 7, Line ''```'',
     Elided 12, Line ''```'', Elided 5, Line ''```'', Elided 11, Line ''```'', Elided 6,
     Line ''```tsx'', Elided 17, Line ''```'', Elided 7, Line ''```tsx'', Elided 8, Line ''```'',
     Elided 5, Line ''```tsx'', Elided 8, Line ''```'', Elided 5, Line ''```tsx'', Elided 11,
     Line ''```'', Elided 8, Line ''```'', Elided 8, Line ''```'', Elided 1, Line ''```tsx'',
     Elided 18, Line ''```'', Elided 10, Line ''```'', Elided 8, Line ''```'', Elided 5,
     Line ''```tsx'', Elided 41, Line ''```'', Elided 3, Line ''```tsx'', Elided 28,
     Line ''```'', Elided 3, Line ''```tsx'', Elided 40, Line ''```'', Elided 3, Line ''```tsx'',
     Elided 46, Line ''```'', Elided 31,
     Line (''::: tip '' @ utf8 [0x6027, 0x80FD, 0x63D0, 0x793A]), Elided 1, Line '':::'',
     Elided 43]"

text \<open>\<^verbatim>\<open>src/guides/nextjs/caching.md\<close> (328 lines)\<close>

definition guides_nextjs_caching_md :: "md_line list" where
  "guides_nextjs_caching_md =
    [Line ''---'', Line ''outline: deep'', Line ''---'', Elided 7, Line ''```mermaid'',
     Elided 17, Line ''```'', Elided 5, Line ''```tsx'', Elided 16, Line ''```'', Elided 3,
     Line ''```tsx'', Elided 14, Line ''```'', Elided 5, Line ''```tsx'', Elided 22,
     Line ''```'', Elided 3, Line ''```tsx'', Elided 21, Line ''```'', Elided 5, Line ''```tsx'',
     Elided 10, Line ''```'', Elided 3, Line ''```tsx'', Elided 12, Line ''```'', Elided 5,
     Line ''```tsx'', Elided 13, Line ''```'', Elided 3, Line ''```tsx'', Elided 15,
     Line ''```'', Elided 5, Line ''```tsx'', Elided 10, Line ''```'', Elided 3, Line ''```tsx'',
     Elided 5, Line ''```'', Elided 3, Line ''```mermaid'', Elided 16, Line ''```'', Elided 13,
     Line ''```tsx'', Elided 17, Line ''```'', Elided 7, Line ''```tsx'', Elided 8, Line ''```'',
     Elided 5, Line ''```bash'', Elided 2, Line ''```'', Elided 5, Line ''```tsx'', Elided 9,
     Line ''```'', Elided 6]"

text \<open>\<^verbatim>\<open>src/guides/nextjs/error-handling.md\<close> (439 lines)\<close>

definition guides_nextjs_error_handling_md :: "md_line list" where
  "guides_nextjs_error_handling_md =
    [Line ''---'', Line ''outline: deep'', Line ''---'', Elided 7, Line ''```mermaid'',
     Elided 10, Line ''```'', Elided 5, Line ''```tsx'', Elided 26, Line ''```'', Elided 3,
     Line ''```tsx'', Elided 29, Line ''```'', Elided 3, Line ''```tsx'', Elided 40,
     Line ''```'', Elided 5, Line ''```tsx'', Elided 12, Line ''```'', Elided 3, Line ''```tsx'',
     Elided 19, Line ''```'', Elided 3, Line ''```tsx'', Elided 15, Line ''```'', Elided 5,
     Line ''```tsx'', Elided 22, Line ''```'', Elided 5, Line ''```tsx'', Elided 30,
     Line ''```'', Elided 3, Line ''```tsx'', Elided 22, Line ''```'', Elided 3, Line ''```tsx'',
     Elided 37, Line ''```'', Elided 3, Line ''```mermaid'', Elided 19, Line ''```'', Elided 7,
     Line ''```tsx'', Elided 5, Line ''```'', Elided 3, Line ''```tsx'', Elided 24, Line ''```'',
     Elided 3, Line ''```tsx'', Elided 21, Line ''```'', Elided 14]"

text \<open>\<^verbatim>\<open>src/guides/nextjs/index.md\<close> (22 lines)\<close>

definition guides_nextjs_index_md :: "md_line list" where
  "guides_nextjs_index_md =
    [Line ''---'', Line ''outline: deep'', Line ''---'', Elided 19]"

text \<open>\<^verbatim>\<open>src/guides/nextjs/route-groups.md\<close>, document 1 of 2 (704 lines)\<close>

definition guides_nextjs_route_groups_md :: "md_line list" where
  "guides_nextjs_route_groups_md =
    [Line ''---'', Line ''outline: deep'', Line ''---'', Elided 30, Line ''```'', Elided 6,
     Line ''```'', Elided 1, Line (''::: warning '' @ utf8 [0x91CD, 0x8981, 0x63D0, 0x793A]),
     Elided 1, Line '':::'', Elided 5, Line ''```'', Elided 8, Line ''```'', Elided 18,
     Line ''```'', Elided 24, Line ''```'', Elided 3, Line ''```tsx'', Elided 21, Line ''```'',
     Elided 3, Line ''```tsx'', Elided 23, Line ''```'', Elided 5, Line ''```'', Elided 7,
     Line ''```'', Elided 5, Line ''```'', Elided 9, Line ''```'', Elided 5, Line ''```'',
     Elided 10, Line ''```'', Elided 1, Line (''::: tip '' @ utf8 [0x63D0, 0x793A]), Elided 1,
     Line '':::'', Elided 9, Line ''```mermaid'', Elided 9, Line ''```'', Elided 3,
     Line ''```tsx'', Elided 35, Line ''```'', Elided 3, Line ''```html'', Elided 12,
     Line ''```'', Elided 3, Line ''```mermaid'', Elided 25, Line ''```'', Elided 7,
     Line ''```'', Elided 8, Line ''```'', Elided 5, Line ''```tsx'', Elided 24, Line ''```'',
     Elided 9, Line ''```'', Elided 11, Line ''```'', Elided 1, Line ''```tsx'', Elided 25,
     Line ''```'', Elided 5, Line ''```'', Elided 26, Line ''```'', Elided 1, Line ''```tsx'',
     Elided 88, Line ''```'', Elided 3, Line ''```tsx'', Elided 21, Line ''```'', Elided 5,
     Line ''```'', Elided 9, Line ''```'', Elided 1, Line ''```tsx'', Elided 16, Line ''```'',
     Elided 12, Line (''::: tip '' @ utf8 [0x63D0, 0x793A]), Elided 1, Line '':::'', Elided 26,
     Line ''```'', Elided 12, Line ''```'', Elided 50]"

text \<open>\<^verbatim>\<open>src/guides/nextjs/route-groups.md\<close>, document 2 of 2 (377 lines)\<close>

definition guides_nextjs_route_groups_md_2 :: "md_line list" where
  "guides_nextjs_route_groups_md_2 =
    [Line ''---'', Line ''outline: deep'', Line ''---'', Elided 13, Line ''```mermaid'',
     Elided 8, Line ''```'', Elided 5, Line ''```typescript'', Elided 31, Line ''```'', Elided 3,
     Line ''```typescript'', Elided 20, Line ''```'', Elided 5, Line ''```typescript'',
     Elided 32, Line ''```'', Elided 3, Line ''```typescript'', Elided 19, Line ''```'',
     Elided 3, Line ''```typescript'', Elided 16, Line ''```'', Elided 3, Line ''```typescript'',
     Elided 18, Line ''```'', Elided 3, Line ''```typescript'', Elided 18, Line ''```'',
     Elided 3, Line ''```typescript'', Elided 23, Line ''```'', Elided 3, Line ''```typescript'',
     Elided 27, Line ''```'', Elided 3, Line ''```typescript'', Elided 11, Line ''```'',
     Elided 3, Line ''```typescript'', Elided 11, Line ''```'', Elided 7, Line ''```typescript'',
     Elided 7, Line ''```'', Elided 5, Line ''```typescript'', Elided 4, Line ''```'', Elided 5,
     Line ''```'', Elided 6, Line ''```'', Elided 5, Line ''```typescript'', Elided 6,
     Line ''```'', Elided 13]"

text \<open>\<^verbatim>\<open>src/guides/nextjs/router-handle.md\<close> (675 lines)\<close>

definition guides_nextjs_router_handle_md :: "md_line list" where
  "guides_nextjs_router_handle_md =
    [Line ''---'', Line ''outline: deep'', Line ''---'', Elided 30, Line ''```'', Elided 9,
     Line ''```'', Elided 1, Line (''::: warning '' @ utf8 [0x91CD, 0x8981, 0x63D0, 0x793A]),
     Elided 1, Line '':::'', Elided 3, Line ''```typescript'', Elided 15, Line ''```'', Elided 7,
     Line ''```typescript'', Elided 48, Line ''```'', Elided 1,
     Line (''::: tip '' @ utf8 [0x65B9, 0x6CD5, 0x547D, 0x540D, 0x89C4, 0x5219]), Elided 4,
     Line '':::'', Elided 11, Line ''```typescript'', Elided 20, Line ''```'', Elided 3,
     Line ''```typescript'', Elided 13, Line ''```'', Elided 3, Line ''```typescript'',
     Elided 13, Line ''```'', Elided 3, Line ''```typescript'', Elided 13, Line ''```'',
     Elided 5, Line ''```typescript'', Elided 12, Line ''```'', Elided 1,
     Line (''::: warning Next.js 16 '' @ utf8 [0x91CD, 0x8981, 0x53D8, 0x5316]), Elided 1,
     Line '':::'', Elided 5, Line ''```typescript'', Elided 19, Line ''```'', Elided 3,
     Line ''```typescript'', Elided 12, Line ''```'', Elided 3, Line ''```typescript'',
     Elided 18, Line ''```'', Elided 3,
     Line (''::: tip '' @ utf8 [0x76F8, 0x5173, 0x6587, 0x6863]), Elided 1, Line '':::'',
     Elided 1, Line ''```typescript'', Elided 17, Line ''```'', Elided 5, Line ''```typescript'',
     Elided 3, Line ''```'', Elided 3, Line ''```typescript'', Elided 6, Line ''```'', Elided 3,
     Line ''```typescript'', Elided 12, Line ''```'', Elided 3, Line ''```typescript'', Elided 5,
     Line ''```'', Elided 3, Line ''```typescript'', Elided 16, Line ''```'', Elided 3,
     Line (''::: tip '' @ utf8 [0x76F8, 0x5173, 0x6587, 0x6863]), Elided 1, Line '':::'',
     Elided 1, Line ''```typescript'', Elided 12, Line ''```'', Elided 3, Line ''```mermaid'',
     Elided 15, Line ''```'', Elided 5, Line ''```typescript'', Elided 35, Line ''```'',
     Elided 3, Line ''```typescript'', Elided 33, Line ''```'', Elided 3,
     Line (''::: tip '' @ utf8 [0x76F8, 0x5173, 0x6587, 0x6863]), Elided 1, Line '':::'',
     Elided 1, Line ''```typescript'', Elided 34, Line ''```'', Elided 3, Line ''```typescript'',
     Elided 3, Line ''```'', Elided 3, Line ''```typescript'', Elided 9, Line ''```'', Elided 5,
     Line ''```typescript'', Elided 27, Line ''```'', Elided 11, Line ''```typescript'',
     Elided 8, Line ''```'', Elided 15, Line ''```typescript'', Elided 3, Line ''```'',
     Elided 11]"

text \<open>\<^verbatim>\<open>src/guides/react/hooks/index.md\<close> (99 lines)\<close>

definition guides_react_hooks_index_md :: "md_line list" where
  "guides_react_hooks_index_md =
    [Line ''---'', Line ''outline: deep'', Line ''---'', Elided 25, Line ''```jsx'', Elided 14,
     Line ''```'', Elided 3, Line ''```jsx'', Elided 11, Line ''```'', Elided 5,
     Line ''```bash'', Elided 1, Line ''```'', Elided 3, Line ''```mermaid'', Elided 13,
     Line ''```'', Elided 13]"

text \<open>\<^verbatim>\<open>src/guides/react/hooks/useCallback-useMemo.md\<close> (467 lines)\<close>

definition guides_react_hooks_useCallback_useMemo_md :: "md_line list" where
  "guides_react_hooks_useCallback_useMemo_md =
    [Line ''---'', Line ''outline: deep'', Line ''---'', Elided 7, Line ''```jsx'', Elided 9,
     Line ''```'', Elided 5, Line ''```jsx'', Elided 16, Line ''```'', Elided 3, Line ''```jsx'',
     Elided 31, Line ''```'', Elided 5, Line ''```jsx'', Elided 11, Line ''```'', Elided 3,
     Line ''```jsx'', Elided 23, Line ''```'', Elided 3, Line ''```mermaid'', Elided 19,
     Line ''```'', Elided 3, Line ''```jsx'', Elided 29, Line ''```'', Elided 3, Line ''```jsx'',
     Elided 27, Line ''```'', Elided 5, Line ''```jsx'', Elided 28, Line ''```'', Elided 3,
     Line ''```jsx'', Elided 29, Line ''```'', Elided 3, Line ''```jsx'', Elided 20,
     Line ''```'', Elided 3, Line ''```jsx'', Elided 31, Line ''```'', Elided 7, Line ''```jsx'',
     Elided 14, Line ''```'', Elided 3, Line ''```jsx'', Elided 14, Line ''```'', Elided 3,
     Line ''```jsx'', Elided 9, Line ''```'', Elided 3, Line ''```jsx'', Elided 41, Line ''```'',
     Elided 19]"

text \<open>\<^verbatim>\<open>src/guides/react/hooks/useReducer.md\<close>, document 1 of 2 (233 lines)\<close>

definition guides_react_hooks_useReducer_md :: "md_line list" where
  "guides_react_hooks_useReducer_md =
    [Line ''---'', Line ''outline: deep'', Line ''---'', Elided 7, Line ''```jsx'', Elided 1,
     Line ''```'', Elided 19, Line ''```jsx'', Elided 26, Line ''```'', Elided 3,
     Line ''```jsx'', Elided 22, Line ''```'', Elided 10, Line ''```jsx'', Elided 7,
     Line ''```'', Elided 3, Line ''```jsx'', Elided 17, Line ''```'', Elided 5, Line ''```jsx'',
     Elided 19, Line ''```'', Elided 3, Line ''```jsx'', Elided 37, Line ''```'', Elided 7,
     Line ''```jsx'', Elided 1, Line ''```'', Elided 5, Line ''```jsx'', Elided 9, Line ''```'',
     Elided 11]"

text \<open>\<^verbatim>\<open>src/guides/react/hooks/useReducer.md\<close>, document 2 of 2 (394 lines)\<close>

definition guides_react_hooks_useReducer_md_2 :: "md_line list" where
  "guides_react_hooks_useReducer_md_2 =
    [Line ''---'', Line ''outline: deep'', Line ''---'', Elided 7, Line ''```jsx'', Elided 1,
     Line ''```'', Elided 18, Line ''```jsx'', Elided 14, Line ''```'', Elided 3,
     Line ''```jsx'', Elided 20, Line ''```'', Elided 3, Line ''```jsx'', Elided 23,
     Line ''```'', Elided 5, Line ''```jsx'', Elided 5, Line ''```'', Elided 3, Line ''```jsx'',
     Elided 22, Line ''```'', Elided 7, Line ''```jsx'', Elided 10, Line ''```'', Elided 3,
     Line ''```jsx'', Elided 19, Line ''```'', Elided 5, Line ''```jsx'', Elided 19,
     Line ''```'', Elided 3, Line ''```jsx'', Elided 9, Line ''```'', Elided 3, Line ''```jsx'',
     Elided 17, Line ''```'', Elided 5, Line ''```jsx'', Elided 6, Line ''```'', Elided 3,
     Line ''```jsx'', Elided 13, Line ''```'', Elided 5, Line ''```jsx'', Elided 8, Line ''```'',
     Elided 3, Line ''```jsx'', Elided 7, Line ''```'', Elided 3, Line ''```jsx'', Elided 33,
     Line ''```'', Elided 7, Line ''```jsx'', Elided 16, Line ''```'', Elided 5, Line ''```jsx'',
     Elided 10, Line ''```'', Elided 12]"

text \<open>\<^verbatim>\<open>src/guides/react/hooks/useRef.md\<close> (425 lines)\<close>

definition guides_react_hooks_useRef_md :: "md_line list" where
  "guides_react_hooks_useRef_md =
    [Line ''---'', Line ''outline: deep'', Line ''---'', Elided 7, Line ''```jsx'', Elided 1,
     Line ''```'', Elided 5, Line ''```jsx'', Elided 5, Line ''```'', Elided 11, Line ''```jsx'',
     Elided 25, Line ''```'', Elided 3, Line ''```jsx'', Elided 17, Line ''```'', Elided 3,
     Line ''```mermaid'', Elided 15, Line ''```'', Elided 3, Line ''```jsx'', Elided 20,
     Line ''```'', Elided 5, Line ''```jsx'', Elided 25, Line ''```'', Elided 3, Line ''```jsx'',
     Elided 17, Line ''```'', Elided 3, Line ''```jsx'', Elided 47, Line ''```'', Elided 3,
     Line ''```jsx'', Elided 22, Line ''```'', Elided 5, Line ''```jsx'', Elided 32,
     Line ''```'', Elided 3, Line ''```jsx'', Elided 34, Line ''```'', Elided 7, Line ''```jsx'',
     Elided 24, Line ''```'', Elided 3, Line ''```jsx'', Elided 11, Line ''```'', Elided 5,
     Line ''```jsx'', Elided 12, Line ''```'', Elided 16]"

text \<open>\<^verbatim>\<open>src/guides/react/index.md\<close> (17 lines)\<close>

definition guides_react_index_md :: "md_line list" where
  "guides_react_index_md =
    [Line ''---'', Line ''outline: deep'', Line ''---'', Elided 14]"

text \<open>\<^verbatim>\<open>src/guides/react/use-api.md\<close> (545 lines)\<close>

definition guides_react_use_api_md :: "md_line list" where
  "guides_react_use_api_md =
    [Line ''---'', Line ''outline: deep'', Line ''---'', Elided 7,
     Line (''::: tip '' @ utf8 [0x6838, 0x5FC3, 0x7406, 0x89E3]), Elided 3, Line '':::'',
     Elided 39, Line ''```jsx'', Elided 5, Line ''```'', Elided 9, Line ''```jsx'', Elided 16,
     Line ''```'', Elided 11, Line ''```jsx'', Elided 17, Line ''```'', Elided 5,
     Line ''```jsx'', Elided 8, Line ''```'', Elided 1,
     Line (''::: tip '' @ utf8 [0x63D0, 0x793A]), Elided 1, Line '':::'', Elided 5,
     Line ''```jsx'', Elided 25, Line ''```'', Elided 5, Line ''```jsx'', Elided 13,
     Line ''```'', Elided 9, Line ''```jsx'', Elided 35, Line ''```'', Elided 5, Line ''```jsx'',
     Elided 8, Line ''```'', Elided 1, Line (''::: warning '' @ utf8 [0x6CE8, 0x610F]), Elided 1,
     Line '':::'', Elided 7, Line ''```jsx'', Elided 23, Line ''```'', Elided 5, Line ''```jsx'',
     Elided 10, Line ''```'', Elided 5, Line ''```jsx'', Elided 46, Line ''```'', Elided 3,
     Line ''```jsx'', Elided 8, Line ''```'', Elided 1,
     Line (''::: warning '' @ utf8 [0x6CE8, 0x610F]), Elided 1, Line '':::'', Elided 5,
     Line ''```jsx'', Elided 7, Line ''```'', Elided 3, Line ''```jsx'', Elided 12, Line ''```'',
     Elided 3, Line ''```jsx'', Elided 8, Line ''```'', Elided 3, Line ''```jsx'', Elided 9,
     Line ''```'', Elided 35, Line ''```jsx'', Elided 40, Line ''```'', Elided 5,
     Line ''```jsx'', Elided 12, Line ''```'', Elided 18]"

text \<open>\<^verbatim>\<open>src/unnamed/part_000\<close>, document 1 of 3 (22 lines)\<close>

definition part_000 :: "md_line list" where
  "part_000 =
    [Line ''---'', Line ''outline: deep'', Line ''---'', Elided 19]"

text \<open>\<^verbatim>\<open>src/unnamed/part_000\<close>, document 2 of 3 (29 lines)\<close>

definition part_000_2 :: "md_line list" where
  "part_000_2 =
    [Line ''---'', Line ''outline: deep'', Line ''---'', Elided 26]"

text \<open>\<^verbatim>\<open>src/unnamed/part_000\<close>, document 3 of 3 (34 lines)\<close>

definition part_000_3 :: "md_line list" where
  "part_000_3 =
    [Line ''---'', Line ''outline: deep'', Line ''---'', Elided 31]"

text \<open>\<^verbatim>\<open>src/unnamed/part_001\<close> (690 lines)\<close>

definition part_001 :: "md_line list" where
  "part_001 =
    [Line ''---'', Line ''outline: deep'', Line ''---'', Elided 22, Line ''```mermaid'',
     Elided 11, Line ''```'', Elided 7, Line ''```mermaid'', Elided 13, Line ''```'', Elided 9,
     Line ''```javascript'', Elided 8, Line ''```'', Elided 5, Line ''```javascript'', Elided 4,
     Line ''```'', Elided 7, Line ''```javascript'', Elided 1, Line ''```'', Elided 6,
     Line ''```javascript'', Elided 1, Line ''```'', Elided 15, Line ''```javascript'',
     Elided 30, Line ''```'', Elided 16, Line ''```mermaid'', Elided 15, Line ''```'', Elided 3,
     Line ''```javascript'', Elided 29, Line ''```'', Elided 22, Line ''```mermaid'', Elided 12,
     Line ''```'', Elided 3, Line ''```javascript'', Elided 35, Line ''```'', Elided 3,
     Line ''```mermaid'', Elided 21, Line ''```'', Elided 1, Line ''```javascript'', Elided 57,
     Line ''```'', Elided 44, Line ''```mermaid'', Elided 13, Line ''```'', Elided 5,
     Line ''```javascript'', Elided 8, Line ''```'', Elided 3, Line ''```javascript'', Elided 10,
     Line ''```'', Elided 3, Line ''```javascript'', Elided 14, Line ''```'', Elided 14,
     Line (''::: tip Next.js '' @ utf8 [0x76F8, 0x5173, 0x6587, 0x6863]), Elided 3, Line '':::'',
     Elided 1, Line ''```typescript'', Elided 71, Line ''```'', Elided 3, Line ''```typescript'',
     Elided 57, Line ''```'', Elided 42]"

text \<open>\<^verbatim>\<open>src/unnamed/part_002\<close> (584 lines)\<close>

definition part_002 :: "md_line list" where
  "part_002 =
    [Line ''---'', Line ''outline: deep'', Line ''---'', Elided 38, Line ''```typescript'',
     Elided 6, Line ''```'', Elided 1,
     Line (''::: warning '' @ utf8 [0x91CD, 0x8981, 0x63D0, 0x793A]), Elided 1, Line '':::'',
     Elided 18, Line ''```typescript'', Elided 11, Line ''```'', Elided 7,
     Line ''```typescript'', Elided 3, Line ''```'', Elided 5, Line ''```typescript'', Elided 3,
     Line ''```'', Elided 20, Line ''```typescript'', Elided 24, Line ''```'', Elided 14,
     Line ''```typescript'', Elided 27, Line ''```'', Elided 1,
     Line (''::: tip '' @ utf8 [0x63D0, 0x793A]), Elided 1, Line '':::'', Elided 5,
     Line ''```typescript'', Elided 16, Line ''```'', Elided 5, Line ''```typescript'',
     Elided 25, Line ''```'', Elided 5, Line ''```typescript'', Elided 32, Line ''```'',
     Elided 5, Line ''```mermaid'', Elided 23, Line ''```'', Elided 9, Line ''```bash'',
     Elided 3, Line ''```'', Elided 5, Line ''```typescript'', Elided 9, Line ''```'', Elided 5,
     Line ''```javascript'', Elided 7, Line ''```'', Elided 5, Line ''```bash'', Elided 1,
     Line ''```'', Elided 14, Line ''```typescript'', Elided 1, Line ''```'', Elided 5,
     Line ''```typescript'', Elided 1, Line ''```'', Elided 5, Line ''```typescript'', Elided 3,
     Line ''```'', Elided 5, Line ''```typescript'', Elided 1, Line ''```'', Elided 3,
     Line ''```typescript'', Elided 3, Line ''```'', Elided 3, Line ''```typescript'', Elided 3,
     Line ''```'', Elided 7, Line ''```typescript'', Elided 9, Line ''```'', Elided 5,
     Line ''```typescript'', Elided 9, Line ''```'', Elided 5, Line ''```typescript'', Elided 3,
     Line ''```'', Elided 5, Line ''```typescript'', Elided 7, Line ''```'', Elided 5,
     Line ''```typescript'', Elided 12, Line ''```'', Elided 18, Line ''```typescript'',
     Elided 3, Line ''```'', Elided 29, Line ''```typescript'', Elided 3, Line ''```'',
     Elided 16]"

text \<open>\<^verbatim>\<open>src/unnamed/part_003\<close> (20 lines)\<close>

definition part_003 :: "md_line list" where
  "part_003 =
    [Line ''---'', Line ''outline: deep'', Line ''---'', Elided 17]"

text \<open>\<^verbatim>\<open>src/unnamed/part_004\<close> (346 lines)\<close>

definition part_004 :: "md_line list" where
  "part_004 =
    [Line ''---'', Line ''outline: deep'', Line ''---'', Elided 7, Line ''```mermaid'',
     Elided 12, Line ''```'', Elided 5, Line ''```tsx'', Elided 28, Line ''```'', Elided 3,
     Line ''```tsx'', Elided 30, Line ''```'', Elided 3, Line ''```tsx'', Elided 14,
     Line ''```'', Elided 5, Line ''```tsx'', Elided 22, Line ''```'', Elided 3, Line ''```tsx'',
     Elided 18, Line ''```'', Elided 5, Line ''```tsx'', Elided 21, Line ''```'', Elided 3,
     Line ''```tsx'', Elided 22, Line ''```'', Elided 3, Line ''```tsx'', Elided 42,
     Line ''```'', Elided 3, Line ''```tsx'', Elided 19, Line ''```'', Elided 18,
     Line ''```tsx'', Elided 10, Line ''```'', Elided 5, Line ''```tsx'', Elided 5, Line ''```'',
     Elided 13]"

text \<open>\<^verbatim>\<open>src/unnamed/part_005\<close> (1356 lines)\<close>

definition part_005 :: "md_line list" where
  "part_005 =
    [Line ''---'', Line ''outline: deep'', Line ''---'', Elided 25,
     Line (''::: tip '' @ utf8 [0x91CD, 0x8981, 0x63D0, 0x793A]), Elided 1, Line '':::'',
     Elided 7, Line ''```tsx'', Elided 10, Line ''```'', Elided 7, Line ''```tsx'', Elided 9,
     Line ''```'', Elided 6, Line ''```tsx'', Elided 18, Line ''```'', Elided 5, Line ''```tsx'',
     Elided 9, Line ''```'', Elided 5, Line ''```tsx'', Elided 9, Line ''```'', Elided 1,
     Line (''::: tip '' @ utf8 [0x4F7F, 0x7528, 0x573A, 0x666F]), Elided 1, Line '':::'',
     Elided 5, Line ''```tsx'', Elided 15, Line ''```'', Elided 5, Line ''```tsx'', Elided 9,
     Line ''```'', Elided 1, Line (''::: warning '' @ utf8 [0x5B89, 0x5168, 0x63D0, 0x793A]),
     Elided 1, Line '':::'', Elided 3, Line ''```tsx'', Elided 35, Line ''```'', Elided 7,
     Line ''```tsx'', Elided 4, Line ''```'', Elided 1,
     Line (''::: warning '' @ utf8 [0x91CD, 0x8981, 0x63D0, 0x793A]), Elided 1, Line '':::'',
     Elided 5, Line ''```tsx'', Elided 13, Line ''```'', Elided 3, Line ''```tsx'', Elided 1,
     Line ''```'', Elided 3, Line ''```tsx'', Elided 13, Line ''```'', Elided 3, Line ''```tsx'',
     Elided 13, Line ''```'', Elided 1,
     Line (''::: tip '' @ utf8 [0x4F7F, 0x7528, 0x573A, 0x666F]), Elided 1, Line '':::'',
     Elided 3, Line ''```tsx'', Elided 13, Line ''```'', Elided 3, Line ''```tsx'', Elided 13,
     Line ''```'', Elided 3, Line ''```tsx'', Elided 15, Line ''```'', Elided 3, Line ''```tsx'',
     Elided 36, Line ''```'', Elided 12,
     Line (''::: tip '' @ utf8 [0x8FC1, 0x79FB, 0x63D0, 0x793A]), Elided 1, Line '':::'',
     Elided 9, Line ''```tsx'', Elided 12, Line ''```'', Elided 5, Line ''```tsx'', Elided 12,
     Line ''```'', Elided 18, Line ''```tsx'', Elided 11, Line ''```'', Elided 3,
     Line ''```tsx'', Elided 20, Line ''```'', Elided 1, Line ''```tsx'', Elided 12,
     Line ''```'', Elided 3, Line ''```tsx'', Elided 14, Line ''```'', Elided 1,
     Line (''::: warning '' @ utf8 [0x6CE8, 0x610F, 0x4E8B, 0x9879]), Elided 1, Line '':::'',
     Elided 5, Line ''```tsx'', Elided 16, Line ''```'', Elided 3, Line ''```tsx'', Elided 14,
     Line ''```'', Elided 8, Line (''::: tip SEO '' @ utf8 [0x63D0, 0x793A]), Elided 1,
     Line '':::'', Elided 3, Line ''```tsx'', Elided 13, Line ''```'', Elided 1, Line ''```tsx'',
     Elided 15, Line ''```'', Elided 1,
     Line (''::: warning '' @ utf8 [0x91CD, 0x8981, 0x63D0, 0x793A]), Elided 1, Line '':::'',
     Elided 7, Line ''```tsx'', Elided 18, Line ''```'', Elided 3, Line ''```tsx'', Elided 44,
     Line ''```'', Elided 3, Line ''```tsx'', Elided 11, Line ''```'', Elided 3, Line ''```tsx'',
     Elided 11, Line ''```'', Elided 3, Line ''```tsx'', Elided 44, Line ''```'', Elided 14,
     Line ''```tsx'', Elided 12, Line ''```'', Elided 1,
     Line (''::: warning '' @ utf8 [0x5F3A, 0x70C8, 0x4E0D, 0x63A8, 0x8350]), Elided 1,
     Line '':::'', Elided 43, Line ''```tsx'', Elided 45, Line ''```'', Elided 3,
     Line ''```tsx'', Elided 65, Line ''```'', Elided 3, Line ''```tsx'', Elided 78,
     Line ''```'', Elided 3, Line ''```tsx'', Elided 85, Line ''```'', Elided 10,
     Line ''```tsx'', Elided 9, Line ''```'', Elided 5, Line ''```tsx'', Elided 18, Line ''```'',
     Elided 5, Line ''```tsx'', Elided 5, Line ''```'', Elided 18, Line ''   ```tsx'', Elided 14,
     Line ''   ```'', Elided 2, Line ''   ```tsx'', Elided 5, Line ''   ```'', Elided 2,
     Line ''   ```tsx'', Elided 13, Line ''   ```'', Elided 54, Line ''```tsx'', Elided 7,
     Line ''```'', Elided 17]"

text \<open>\<^verbatim>\<open>src/unnamed/part_006\<close> (500 lines)\<close>

definition part_006 :: "md_line list" where
  "part_006 =
    [Line ''---'', Line ''outline: deep'', Line ''---'', Elided 9, Line ''```jsx'', Elided 7,
     Line ''```'', Elided 3, Line ''```jsx'', Elided 15, Line ''```'', Elided 3,
     Line ''```mermaid'', Elided 16, Line ''```'', Elided 5, Line ''```jsx'', Elided 9,
     Line ''```'', Elided 3, Line ''```jsx'', Elided 14, Line ''```'', Elided 3, Line ''```jsx'',
     Elided 4, Line ''```'', Elided 9, Line ''```jsx'', Elided 8, Line ''```'', Elided 3,
     Line ''```jsx'', Elided 16, Line ''```'', Elided 5, Line ''```jsx'', Elided 34,
     Line ''```'', Elided 3, Line ''```jsx'', Elided 23, Line ''```'', Elided 3, Line ''```jsx'',
     Elided 20, Line ''```'', Elided 3, Line ''```jsx'', Elided 16, Line ''```'', Elided 5,
     Line ''```jsx'', Elided 20, Line ''```'', Elided 3, Line ''```jsx'', Elided 26,
     Line ''```'', Elided 3, Line ''```jsx'', Elided 15, Line ''```'', Elided 5, Line ''```jsx'',
     Elided 17, Line ''```'', Elided 3, Line ''```jsx'', Elided 20, Line ''```'', Elided 7,
     Line ''```jsx'', Elided 13, Line ''```'', Elided 7, Line ''```jsx'', Elided 18,
     Line ''```'', Elided 5, Line ''```jsx'', Elided 10, Line ''```'', Elided 5, Line ''```jsx'',
     Elided 23, Line ''```'', Elided 16]"

text \<open>\<^verbatim>\<open>src/unnamed/part_007\<close> (459 lines)\<close>

definition part_007 :: "md_line list" where
  "part_007 =
    [Line ''---'', Line ''outline: deep'', Line ''---'', Elided 9, Line ''```jsx'', Elided 20,
     Line ''```'', Elided 5, Line ''```jsx'', Elided 8, Line ''```'', Elided 3, Line ''```jsx'',
     Elided 17, Line ''```'', Elided 3, Line ''```jsx'', Elided 10, Line ''```'', Elided 5,
     Line ''```jsx'', Elided 40, Line ''```'', Elided 3, Line ''```jsx'', Elided 48,
     Line ''```'', Elided 3, Line ''```jsx'', Elided 31, Line ''```'', Elided 3, Line ''```jsx'',
     Elided 38, Line ''```'', Elided 3, Line ''```jsx'', Elided 43, Line ''```'', Elided 3,
     Line ''```jsx'', Elided 30, Line ''```'', Elided 3, Line ''```jsx'', Elided 22,
     Line ''```'', Elided 7, Line ''```jsx'', Elided 14, Line ''```'', Elided 5, Line ''```jsx'',
     Elided 14, Line ''```'', Elided 5, Line ''```jsx'', Elided 18, Line ''```'', Elided 15]"

text \<open>\<^verbatim>\<open>src/unnamed/part_010\<close>, document 1 of 2 (22 lines)\<close>

definition part_010 :: "md_line list" where
  "part_010 =
    [Line ''---'', Line ''outline: deep'', Line ''---'', Elided 19]"

text \<open>\<^verbatim>\<open>src/unnamed/part_010\<close>, document 2 of 2 (27 lines)\<close>

definition part_010_2 :: "md_line list" where
  "part_010_2 =
    [Line ''---'', Line ''# https://vitepress.dev/reference/default-theme-home-page'',
     Line ''layout: home'', Line '''', Line ''hero:'',
     Line (''  name: '' @ utf8 [0x22, 0x6280, 0x672F, 0x6587, 0x6863, 0x22]),
     Line (''  text: '' @ utf8 [0x22, 0x5B66, 0x4E60, 0x4E0E, 0x53C2, 0x8003, 0x22]),
     Line (''  tagline: '' @ utf8 [0x6DB5, 0x76D6] @ '' React'' @ utf8 [0x3001] @ ''Next.js''
            @ utf8 [0x3001] @ ''Node.js'' @ utf8 [0x3001] @ ''Go '' @ utf8 [0x7B49, 0x6280, 0x672F,
            0x6808, 0x7684, 0x5B66, 0x4E60, 0x6307, 0x5357, 0x548C, 0x53C2, 0x8003, 0x6587,
            0x6863]),
     Line ''  actions:'', Line ''    - theme: brand'',
     Line (''      text: '' @ utf8 [0x5F00, 0x59CB, 0x5B66, 0x4E60]),
     Line ''      link: /guides/'', Line ''    - theme: alt'',
     Line (''      text: '' @ utf8 [0x67E5, 0x770B, 0x793A, 0x4F8B]),
     Line ''      link: /examples/'', Line '''', Line ''features:'',
     Line (''  - title: '' @ utf8 [0x5B66, 0x4E60, 0x6307, 0x5357]),
     Line (''    details: '' @ utf8 [0x7CFB, 0x7EDF, 0x5316, 0x7684, 0x5B66, 0x4E60, 0x6559,
            0x7A0B, 0xFF0C, 0x4ECE, 0x57FA, 0x7840, 0x5230, 0x8FDB, 0x9636, 0xFF0C, 0x6DB5, 0x76D6]
            @ '' React'' @ utf8 [0x3001] @ ''Next.js'' @ utf8 [0x3001] @ ''Node.js''
            @ utf8 [0x3001] @ ''Go '' @ utf8 [0x7B49, 0x6280, 0x672F, 0x6808]),
     Line ''    link: /guides/'', Line (''  - title: API '' @ utf8 [0x53C2, 0x8003]),
     Line (''    details: '' @ utf8 [0x8BE6, 0x7EC6, 0x7684] @ '' API '' @ utf8 [0x6587, 0x6863,
            0x548C, 0x53C2, 0x8003, 0xFF0C, 0x5E2E, 0x52A9, 0x5FEB, 0x901F, 0x67E5, 0x627E, 0x548C,
            0x4F7F, 0x7528, 0x5404, 0x79CD] @ '' API''),
     Line ''    link: /api/'', Line (''  - title: '' @ utf8 [0x6700, 0x4F73, 0x5B9E, 0x8DF5]),
     Line (''    details: '' @ utf8 [0x7ECF, 0x8FC7, 0x5B9E, 0x8DF5, 0x9A8C, 0x8BC1, 0x7684,
            0x5F00, 0x53D1, 0x5EFA, 0x8BAE, 0x548C, 0x6700, 0x4F73, 0x5B9E, 0x8DF5, 0xFF0C, 0x63D0,
            0x5347, 0x4EE3, 0x7801, 0x8D28, 0x91CF, 0x548C, 0x5F00, 0x53D1, 0x6548, 0x7387]),
     Line ''    link: /best-practices/'', Line ''---'']"


section \<open>The source tree\<close>

datatype source_file = Markdown "md_line list list" | Config config_module

text \<open>
  All files, by path. The files under \<^verbatim>\<open>src/unnamed\<close> are files of the repository whose
  own paths are not known; they carry a placeholder.
\<close>

definition source_files :: "(string \<times> source_file) list" where
  "source_files =
    [(''src/.vitepress/config.mts'', Config config_mts),
     (''src/examples/markdown-examples.md'',
      Markdown [examples_markdown_examples_md]),
     (''src/guides/general/network-communication.md'',
      Markdown [guides_general_network_communication_md]),
     (''src/guides/general/rendering-modes.md'',
      Markdown [guides_general_rendering_modes_md]),
     (''src/guides/nextjs/app-router.md'',
      Markdown [guides_nextjs_app_router_md]),
     (''src/guides/nextjs/caching.md'',
      Markdown [guides_nextjs_caching_md]),
     (''src/guides/nextjs/error-handling.md'',
      Markdown [guides_nextjs_error_handling_md]),
     (''src/guides/nextjs/index.md'',
      Markdown [guides_nextjs_index_md]),
     (''src/guides/nextjs/route-groups.md'',
      Markdown [guides_nextjs_route_groups_md, guides_nextjs_route_groups_md_2]),
     (''src/guides/nextjs/router-handle.md'',
      Markdown [guides_nextjs_router_handle_md]),
     (''src/guides/react/hooks/index.md'',
      Markdown [guides_react_hooks_index_md]),
     (''src/guides/react/hooks/useCallback-useMemo.md'',
      Markdown [guides_react_hooks_useCallback_useMemo_md]),
     (''src/guides/react/hooks/useReducer.md'',
      Markdown [guides_react_hooks_useReducer_md, guides_react_hooks_useReducer_md_2]),
     (''src/guides/react/hooks/useRef.md'',
      Markdown [guides_react_hooks_useRef_md]),
     (''src/guides/react/index.md'',
      Markdown [guides_react_index_md]),
     (''src/guides/react/use-api.md'',
      Markdown [guides_react_use_api_md]),
     (''src/unnamed/part_000'',
      Markdown [part_000, part_000_2, part_000_3]),
     (''src/unnamed/part_001'',
      Markdown [part_001]),
     (''src/unnamed/part_002'',
      Markdown [part_002]),
     (''src/unnamed/part_003'',
      Markdown [part_003]),
     (''src/unnamed/part_004'',
      Markdown [part_004]),
     (''src/unnamed/part_005'',
      Markdown [part_005]),
     (''src/unnamed/part_006'',
      Markdown [part_006]),
     (''src/unnamed/part_007'',
      Markdown [part_007]),
     (''src/unnamed/part_008'', Config part_008),
     (''src/unnamed/part_009'', Config part_009),
     (''src/unnamed/part_010'',
      Markdown [part_010, part_010_2])]"

definition documents :: "md_line list list" where
  "documents =
     concat (map (\<lambda>(p, f). case f of Markdown ds \<Rightarrow> ds | Config m \<Rightarrow> []) source_files)"

text \<open>
  The pages: every Markdown document with the file that holds it, its position in that file,
  and its title, the first line outside the frontmatter block and outside code fences that
  starts with \<^verbatim>\<open># \<close>, without that marker. The home page has frontmatter only and no
  title.
\<close>

record page =
  source_path :: string
  ordinal :: nat
  heading :: "string option"
  body :: "md_line list"

definition pages :: "page list" where
  "pages =
    [\<lparr>source_path = ''src/examples/markdown-examples.md'', ordinal = 1,
      heading = Some ''Markdown Extension Examples'',
      body = examples_markdown_examples_md\<rparr>,
     \<lparr>source_path = ''src/guides/general/network-communication.md'', ordinal = 1,
      heading = Some (utf8 [0x7F51, 0x7EDC, 0x4E0E, 0x901A, 0x4FE1]),
      body = guides_general_network_communication_md\<rparr>,
     \<lparr>source_path = ''src/guides/general/rendering-modes.md'', ordinal = 1,
      heading = Some (utf8 [0x524D, 0x7AEF, 0x6E32, 0x67D3, 0x6A21, 0x5F0F, 0xFF1A] @ ''CSR''
                  @ utf8 [0x3001] @ ''SSR '' @ utf8 [0x548C] @ '' SSG''),
      body = guides_general_rendering_modes_md\<rparr>,
     \<lparr>source_path = ''src/guides/nextjs/app-router.md'', ordinal = 1,
      heading = Some (''Next.js App Router '' @ utf8 [0x6587, 0x4EF6, 0x8DEF, 0x7531, 0x7CFB, 0x7EDF]),
      body = guides_nextjs_app_router_md\<rparr>,
     \<lparr>source_path = ''src/guides/nextjs/caching.md'', ordinal = 1,
      heading = Some (''Next.js '' @ utf8 [0x7F13, 0x5B58, 0x673A, 0x5236]),
      body = guides_nextjs_caching_md\<rparr>,
     \<lparr>source_path = ''src/guides/nextjs/error-handling.md'', ordinal = 1,
      heading = Some (''Next.js '' @ utf8 [0x9519, 0x8BEF, 0x5904, 0x7406]),
      body = guides_nextjs_error_handling_md\<rparr>,
     \<lparr>source_path = ''src/guides/nextjs/index.md'', ordinal = 1,
      heading = Some (''Next.js '' @ utf8 [0x5B66, 0x4E60, 0x6307, 0x5357]),
      body = guides_nextjs_index_md\<rparr>,
     \<lparr>source_path = ''src/guides/nextjs/route-groups.md'', ordinal = 1,
      heading = Some (''Next.js '' @ utf8 [0x8DEF, 0x7531, 0x7EC4, 0xFF08] @ ''Route Groups''
                  @ utf8 [0xFF09]),
      body = guides_nextjs_route_groups_md\<rparr>,
     \<lparr>source_path = ''src/guides/nextjs/route-groups.md'', ordinal = 2,
      heading = Some ''Next.js Middleware'',
      body = guides_nextjs_route_groups_md_2\<rparr>,
     \<lparr>source_path = ''src/guides/nextjs/router-handle.md'', ordinal = 1,
      heading = Some (''Next.js '' @ utf8 [0x670D, 0x52A1, 0x7AEF, 0x8DEF, 0x7531, 0x5904, 0x7406,
                  0x7A0B, 0x5E8F, 0xFF08] @ ''Route Handlers'' @ utf8 [0xFF09]),
      body = guides_nextjs_router_handle_md\<rparr>,
     \<lparr>source_path = ''src/guides/react/hooks/index.md'', ordinal = 1,
      heading = Some (''React Hooks '' @ utf8 [0x6982, 0x89C8]),
      body = guides_react_hooks_index_md\<rparr>,
     \<lparr>source_path = ''src/guides/react/hooks/useCallback-useMemo.md'', ordinal = 1,
      heading = Some (''useCallback '' @ utf8 [0x4E0E] @ '' useMemo '' @ utf8 [0x6027, 0x80FD, 0x4F18,
                  0x5316]),
      body = guides_react_hooks_useCallback_useMemo_md\<rparr>,
     \<lparr>source_path = ''src/guides/react/hooks/useReducer.md'', ordinal = 1,
      heading = Some (''useReducer '' @ utf8 [0x6DF1, 0x5165, 0x6307, 0x5357]),
      body = guides_react_hooks_useReducer_md\<rparr>,
     \<lparr>source_path = ''src/guides/react/hooks/useReducer.md'', ordinal = 2,
      heading = Some (''useState '' @ utf8 [0x6DF1, 0x5165, 0x6307, 0x5357]),
      body = guides_react_hooks_useReducer_md_2\<rparr>,
     \<lparr>source_path = ''src/guides/react/hooks/useRef.md'', ordinal = 1,
      heading = Some (''useRef '' @ utf8 [0x6DF1, 0x5165, 0x6307, 0x5357]),
      body = guides_react_hooks_useRef_md\<rparr>,
     \<lparr>source_path = ''src/guides/react/index.md'', ordinal = 1,
      heading = Some (''React '' @ utf8 [0x5B66, 0x4E60, 0x6307, 0x5357]),
      body = guides_react_index_md\<rparr>,
     \<lparr>source_path = ''src/guides/react/use-api.md'', ordinal = 1,
      heading = Some (''React use() API '' @ utf8 [0x6DF1, 0x5165, 0x5B66, 0x4E60]),
      body = guides_react_use_api_md\<rparr>,
     \<lparr>source_path = ''src/unnamed/part_000'', ordinal = 1,
      heading = Some (''API '' @ utf8 [0x53C2, 0x8003]),
      body = part_000\<rparr>,
     \<lparr>source_path = ''src/unnamed/part_000'', ordinal = 2,
      heading = Some (utf8 [0x5B66, 0x4E60, 0x6307, 0x5357]),
      body = part_000_2\<rparr>,
     \<lparr>source_path = ''src/unnamed/part_000'', ordinal = 3,
      heading = Some (utf8 [0x5B66, 0x4E60, 0x6307, 0x5357]),
      body = part_000_3\<rparr>,
     \<lparr>source_path = ''src/unnamed/part_001'', ordinal = 1,
      heading = Some (utf8 [0x8BA4, 0x8BC1, 0x673A, 0x5236, 0xFF1A] @ ''Cookie'' @ utf8 [0x3001]
                  @ ''Token'' @ utf8 [0x3001] @ ''Session''),
      body = part_001\<rparr>,
     \<lparr>source_path = ''src/unnamed/part_002'', ordinal = 1,
      heading = Some (''Next.js Proxy'' @ utf8 [0xFF08, 0x4EE3, 0x7406, 0xFF09]),
      body = part_002\<rparr>,
     \<lparr>source_path = ''src/unnamed/part_003'', ordinal = 1,
      heading = Some (''Next.js '' @ utf8 [0x5B66, 0x4E60, 0x6307, 0x5357]),
      body = part_003\<rparr>,
     \<lparr>source_path = ''src/unnamed/part_004'', ordinal = 1,
      heading = Some (''Next.js '' @ utf8 [0x6570, 0x636E, 0x83B7, 0x53D6]),
      body = part_004\<rparr>,
     \<lparr>source_path = ''src/unnamed/part_005'', ordinal = 1,
      heading = Some (''Next.js App Router '' @ utf8 [0x8DEF, 0x7531, 0x5BFC, 0x822A]),
      body = part_005\<rparr>,
     \<lparr>source_path = ''src/unnamed/part_006'', ordinal = 1,
      heading = Some (''useEffect '' @ utf8 [0x6DF1, 0x5EA6, 0x89E3, 0x6790]),
      body = part_006\<rparr>,
     \<lparr>source_path = ''src/unnamed/part_007'', ordinal = 1,
      heading = Some (utf8 [0x81EA, 0x5B9A, 0x4E49] @ '' Hooks''),
      body = part_007\<rparr>,
     \<lparr>source_path = ''src/unnamed/part_010'', ordinal = 1,
      heading = Some (utf8 [0x6700, 0x4F73, 0x5B9E, 0x8DF5]),
      body = part_010\<rparr>,
     \<lparr>source_path = ''src/unnamed/part_010'', ordinal = 2,
      heading = None,
      body = part_010_2\<rparr>]"


text \<open>
  The route of a page: the path of its Markdown file below the source directory, without the
  extension. Routes are rooted, so the slash after \<^verbatim>\<open>src\<close> stays.
\<close>

definition route :: "string \<Rightarrow> string option" where
  "route p =
     (if startsWith p ''src/'' \<and> endsWith p ''.md''
      then Some (drop 3 (take (length p - 3) p))
      else None)"



text \<open>
  What a source file can execute: the function-valued options of a configuration module,
  named by their property path, and the block-level script elements of a page.
\<close>

fun executable_parts :: "source_file \<Rightarrow> string list" where
  "executable_parts (Config m) = map dotted (methods (options m))"
| "executable_parts (Markdown ds) = concat (map script_lines ds)"


section \<open>Properties of the string functions\<close>

lemma startsWith_iff: "startsWith s n \<longleftrightarrow> (\<exists>ys. s = n @ ys)"
  by (induction s n rule: startsWith.induct) auto

lemma js_includes_iff: "js_includes s n \<longleftrightarrow> (\<exists>xs ys. s = xs @ n @ ys)"
proof (induction s)
  case Nil
  show ?case by (cases n) auto
next
  case (Cons c cs)
  show ?case
  proof
    assume "js_includes (c # cs) n"
    then consider "startsWith (c # cs) n" | "js_includes cs n" by auto
    then show "\<exists>xs ys. c # cs = xs @ n @ ys"
    proof cases
      case 1
      then obtain ys where "c # cs = n @ ys" by (auto simp: startsWith_iff)
      then have "c # cs = [] @ n @ ys" by simp
      then show ?thesis by blast
    next
      case 2
      with Cons obtain xs ys where "cs = xs @ n @ ys" by auto
      then have "c # cs = (c # xs) @ n @ ys" by simp
      then show ?thesis by blast
    qed
  next
    assume "\<exists>xs ys. c # cs = xs @ n @ ys"
    then obtain xs ys where e: "c # cs = xs @ n @ ys" by auto
    show "js_includes (c # cs) n"
    proof (cases xs)
      case Nil
      with e have "startsWith (c # cs) n" by (auto simp: startsWith_iff)
      then show ?thesis by simp
    next
      case (Cons x xs')
      with e have "cs = xs' @ n @ ys" by simp
      with Cons.IH have "js_includes cs n" by blast
      then show ?thesis by simp
    qed
  qed
qed

lemma utf8_char_nonempty: "utf8_char n \<noteq> []"
  by (simp add: utf8_char_def)

lemma utf8_nonempty: "utf8 (c # cs) \<noteq> []"
  by (simp add: utf8_def utf8_char_nonempty)


section \<open>Evaluating the scanners on the documents\<close>

lemmas scan =
  block_lines_def fence_step_def indent_def ticks_def info_def blank_def lstrip_def
  verbatim_def container_lines_def

lemma until_delimiter_shape:
  "until_delimiter ls = Some fm \<Longrightarrow>
     \<exists>rest. ls = map Line fm @ Line ''---'' # rest \<and> ''---'' \<notin> set fm"
proof (induction ls arbitrary: fm rule: until_delimiter.induct)
  case 1
  then show ?case by simp
next
  case (2 k ls)
  then show ?case by simp
next
  case (3 s ls)
  show ?case
  proof (cases "s = ''---''")
    case True
    with 3 show ?thesis by auto
  next
    case False
    with 3(2) obtain fm' where f: "until_delimiter ls = Some fm'" "fm = s # fm'"
      by auto
    from 3(1)[OF False f(1)] obtain rest where
      "ls = map Line fm' @ Line ''---'' # rest" "''---'' \<notin> set fm'" by blast
    with f False show ?thesis by auto
  qed
qed

lemma frontmatter_shape:
  assumes "frontmatter doc = Some fm"
  shows "\<exists>rest. doc = Line ''---'' # map Line fm @ Line ''---'' # rest \<and> ''---'' \<notin> set fm"
proof (cases doc)
  case Nil
  with assms show ?thesis by simp
next
  case (Cons l ls)
  show ?thesis
  proof (cases l)
    case (Line s)
    with Cons assms have s: "s = ''---''" and u: "until_delimiter ls = Some fm"
      by (auto split: if_splits)
    from until_delimiter_shape[OF u] Cons Line s show ?thesis by auto
  next
    case (Elided n)
    with Cons assms show ?thesis by simp
  qed
qed

named_theorems doc_scan

lemma examples_markdown_examples_md_scan [doc_scan]:
  "block_lines examples_markdown_examples_md =
    [''::: info'', '':::'', ''::: tip'', '':::'', ''::: warning'', '':::'', ''::: danger'',
     '':::'', ''::: details'', '':::'']"
  "container_lines (verbatim examples_markdown_examples_md) =
    [''::: info'', '':::'', ''::: tip'', '':::'', ''::: warning'', '':::'', ''::: danger'',
     '':::'', ''::: details'', '':::'', ''::: info'', '':::'', ''::: tip'', '':::'',
     ''::: warning'', '':::'', ''::: danger'', '':::'', ''::: details'', '':::'']"
  "frontmatter examples_markdown_examples_md =
    None"
  by (simp_all add: examples_markdown_examples_md_def scan)

lemma guides_general_network_communication_md_scan [doc_scan]:
  "block_lines guides_general_network_communication_md =
    [''---'', ''outline: deep'', ''---'', (''::: tip '' @ utf8 [0x63D0, 0x793A]), '':::'',
     (''::: warning '' @ utf8 [0x6CE8, 0x610F]), '':::'']"
  "container_lines (verbatim guides_general_network_communication_md) =
    [(''::: tip '' @ utf8 [0x63D0, 0x793A]), '':::'', (''::: warning '' @ utf8 [0x6CE8, 0x610F]),
     '':::'']"
  "frontmatter guides_general_network_communication_md =
    Some [''outline: deep'']"
  by (simp_all add: guides_general_network_communication_md_def scan)

lemma guides_general_rendering_modes_md_scan [doc_scan]:
  "block_lines guides_general_rendering_modes_md =
    [''---'', ''outline: deep'', ''---'', (''::: tip '' @ utf8 [0x6838, 0x5FC3, 0x7406, 0x89E3]),
     '':::'', (''::: warning '' @ utf8 [0x91CD, 0x8981, 0x4FEE, 0x6B63]), '':::'',
     (''::: tip '' @ utf8 [0x7406, 0x89E3] @ '' Hydration''), '':::'',
     (''::: tip '' @ utf8 [0x5173, 0x952E, 0x7406, 0x89E3]), '':::'']"
  "container_lines (verbatim guides_general_rendering_modes_md) =
    [(''::: tip '' @ utf8 [0x6838, 0x5FC3, 0x7406, 0x89E3]), '':::'',
     (''::: warning '' @ utf8 [0x91CD, 0x8981, 0x4FEE, 0x6B63]), '':::'',
     (''::: tip '' @ utf8 [0x7406, 0x89E3] @ '' Hydration''), '':::'',
     (''::: tip '' @ utf8 [0x5173, 0x952E, 0x7406, 0x89E3]), '':::'']"
  "frontmatter guides_general_rendering_modes_md =
    Some [''outline: deep'']"
  by (simp_all add: guides_general_rendering_modes_md_def scan)

lemma guides_nextjs_app_router_md_scan [doc_scan]:
  "block_lines guides_nextjs_app_router_md =
    [''---'', ''outline: deep'', ''---'', (''::: tip '' @ utf8 [0x8FC1, 0x79FB, 0x5EFA, 0x8BAE]),
     '':::'', (''::: warning '' @ utf8 [0x91CD, 0x8981, 0x63D0, 0x793A]), '':::'',
     (''::: tip '' @ utf8 [0x6839, 0x5E03, 0x5C40]), '':::'',
     (''::: tip '' @ utf8 [0x6700, 0x4F73, 0x5B9E, 0x8DF5]), '':::'',
     (''::: tip '' @ utf8 [0x6027, 0x80FD, 0x63D0, 0x793A]), '':::'']"
  "container_lines (verbatim guides_nextjs_app_router_md) =
    [(''::: tip '' @ utf8 [0x8FC1, 0x79FB, 0x5EFA, 0x8BAE]), '':::'',
     (''::: warning '' @ utf8 [0x91CD, 0x8981, 0x63D0, 0x793A]), '':::'',
     (''::: tip '' @ utf8 [0x6839, 0x5E03, 0x5C40]), '':::'',
     (''::: tip '' @ utf8 [0x6700, 0x4F73, 0x5B9E, 0x8DF5]), '':::'',
     (''::: tip '' @ utf8 [0x6027, 0x80FD, 0x63D0, 0x793A]), '':::'']"
  "frontmatter guides_nextjs_app_router_md =
    Some [''outline: deep'']"
  by (simp_all add: guides_nextjs_app_router_md_def scan)

lemma guides_nextjs_caching_md_scan [doc_scan]:
  "block_lines guides_nextjs_caching_md =
    [''---'', ''outline: deep'', ''---'']"
  "container_lines (verbatim guides_nextjs_caching_md) =
    []"
  "frontmatter guides_nextjs_caching_md =
    Some [''outline: deep'']"
  by (simp_all add: guides_nextjs_caching_md_def scan)

lemma guides_nextjs_error_handling_md_scan [doc_scan]:
  "block_lines guides_nextjs_error_handling_md =
    [''---'', ''outline: deep'', ''---'']"
  "container_lines (verbatim guides_nextjs_error_handling_md) =
    []"
  "frontmatter guides_nextjs_error_handling_md =
    Some [''outline: deep'']"
  by (simp_all add: guides_nextjs_error_handling_md_def scan)

lemma guides_nextjs_index_md_scan [doc_scan]:
  "block_lines guides_nextjs_index_md =
    [''---'', ''outline: deep'', ''---'']"
  "container_lines (verbatim guides_nextjs_index_md) =
    []"
  "frontmatter guides_nextjs_index_md =
    Some [''outline: deep'']"
  by (simp_all add: guides_nextjs_index_md_def scan)

lemma guides_nextjs_route_groups_md_scan [doc_scan]:
  "block_lines guides_nextjs_route_groups_md =
    [''---'', ''outline: deep'', ''---'',
     (''::: warning '' @ utf8 [0x91CD, 0x8981, 0x63D0, 0x793A]), '':::'',
     (''::: tip '' @ utf8 [0x63D0, 0x793A]), '':::'', (''::: tip '' @ utf8 [0x63D0, 0x793A]),
     '':::'']"
  "container_lines (verbatim guides_nextjs_route_groups_md) =
    [(''::: warning '' @ utf8 [0x91CD, 0x8981, 0x63D0, 0x793A]), '':::'',
     (''::: tip '' @ utf8 [0x63D0, 0x793A]), '':::'', (''::: tip '' @ utf8 [0x63D0, 0x793A]),
     '':::'']"
  "frontmatter guides_nextjs_route_groups_md =
    Some [''outline: deep'']"
  by (simp_all add: guides_nextjs_route_groups_md_def scan)

lemma guides_nextjs_route_groups_md_2_scan [doc_scan]:
  "block_lines guides_nextjs_route_groups_md_2 =
    [''---'', ''outline: deep'', ''---'']"
  "container_lines (verbatim guides_nextjs_route_groups_md_2) =
    []"
  "frontmatter guides_nextjs_route_groups_md_2 =
    Some [''outline: deep'']"
  by (simp_all add: guides_nextjs_route_groups_md_2_def scan)

lemma guides_nextjs_router_handle_md_scan [doc_scan]:
  "block_lines guides_nextjs_router_handle_md =
    [''---'', ''outline: deep'', ''---'',
     (''::: warning '' @ utf8 [0x91CD, 0x8981, 0x63D0, 0x793A]), '':::'',
     (''::: tip '' @ utf8 [0x65B9, 0x6CD5, 0x547D, 0x540D, 0x89C4, 0x5219]), '':::'',
     (''::: warning Next.js 16 '' @ utf8 [0x91CD, 0x8981, 0x53D8, 0x5316]), '':::'',
     (''::: tip '' @ utf8 [0x76F8, 0x5173, 0x6587, 0x6863]), '':::'',
     (''::: tip '' @ utf8 [0x76F8, 0x5173, 0x6587, 0x6863]), '':::'',
     (''::: tip '' @ utf8 [0x76F8, 0x5173, 0x6587, 0x6863]), '':::'']"
  "container_lines (verbatim guides_nextjs_router_handle_md) =
    [(''::: warning '' @ utf8 [0x91CD, 0x8981, 0x63D0, 0x793A]), '':::'',
     (''::: tip '' @ utf8 [0x65B9, 0x6CD5, 0x547D, 0x540D, 0x89C4, 0x5219]), '':::'',
     (''::: warning Next.js 16 '' @ utf8 [0x91CD, 0x8981, 0x53D8, 0x5316]), '':::'',
     (''::: tip '' @ utf8 [0x76F8, 0x5173, 0x6587, 0x6863]), '':::'',
     (''::: tip '' @ utf8 [0x76F8, 0x5173, 0x6587, 0x6863]), '':::'',
     (''::: tip '' @ utf8 [0x76F8, 0x5173, 0x6587, 0x6863]), '':::'']"
  "frontmatter guides_nextjs_router_handle_md =
    Some [''outline: deep'']"
  by (simp_all add: guides_nextjs_router_handle_md_def scan)

lemma guides_react_hooks_index_md_scan [doc_scan]:
  "block_lines guides_react_hooks_index_md =
    [''---'', ''outline: deep'', ''---'']"
  "container_lines (verbatim guides_react_hooks_index_md) =
    []"
  "frontmatter guides_react_hooks_index_md =
    Some [''outline: deep'']"
  by (simp_all add: guides_react_hooks_index_md_def scan)

lemma guides_react_hooks_useCallback_useMemo_md_scan [doc_scan]:
  "block_lines guides_react_hooks_useCallback_useMemo_md =
    [''---'', ''outline: deep'', ''---'']"
  "container_lines (verbatim guides_react_hooks_useCallback_useMemo_md) =
    []"
  "frontmatter guides_react_hooks_useCallback_useMemo_md =
    Some [''outline: deep'']"
  by (simp_all add: guides_react_hooks_useCallback_useMemo_md_def scan)

lemma guides_react_hooks_useReducer_md_scan [doc_scan]:
  "block_lines guides_react_hooks_useReducer_md =
    [''---'', ''outline: deep'', ''---'']"
  "container_lines (verbatim guides_react_hooks_useReducer_md) =
    []"
  "frontmatter guides_react_hooks_useReducer_md =
    Some [''outline: deep'']"
  by (simp_all add: guides_react_hooks_useReducer_md_def scan)

lemma guides_react_hooks_useReducer_md_2_scan [doc_scan]:
  "block_lines guides_react_hooks_useReducer_md_2 =
    [''---'', ''outline: deep'', ''---'']"
  "container_lines (verbatim guides_react_hooks_useReducer_md_2) =
    []"
  "frontmatter guides_react_hooks_useReducer_md_2 =
    Some [''outline: deep'']"
  by (simp_all add: guides_react_hooks_useReducer_md_2_def scan)

lemma guides_react_hooks_useRef_md_scan [doc_scan]:
  "block_lines guides_react_hooks_useRef_md =
    [''---'', ''outline: deep'', ''---'']"
  "container_lines (verbatim guides_react_hooks_useRef_md) =
    []"
  "frontmatter guides_react_hooks_useRef_md =
    Some [''outline: deep'']"
  by (simp_all add: guides_react_hooks_useRef_md_def scan)

lemma guides_react_index_md_scan [doc_scan]:
  "block_lines guides_react_index_md =
    [''---'', ''outline: deep'', ''---'']"
  "container_lines (verbatim guides_react_index_md) =
    []"
  "frontmatter guides_react_index_md =
    Some [''outline: deep'']"
  by (simp_all add: guides_react_index_md_def scan)

lemma guides_react_use_api_md_scan [doc_scan]:
  "block_lines guides_react_use_api_md =
    [''---'', ''outline: deep'', ''---'', (''::: tip '' @ utf8 [0x6838, 0x5FC3, 0x7406, 0x89E3]),
     '':::'', (''::: tip '' @ utf8 [0x63D0, 0x793A]), '':::'',
     (''::: warning '' @ utf8 [0x6CE8, 0x610F]), '':::'',
     (''::: warning '' @ utf8 [0x6CE8, 0x610F]), '':::'']"
  "container_lines (verbatim guides_react_use_api_md) =
    [(''::: tip '' @ utf8 [0x6838, 0x5FC3, 0x7406, 0x89E3]), '':::'',
     (''::: tip '' @ utf8 [0x63D0, 0x793A]), '':::'', (''::: warning '' @ utf8 [0x6CE8, 0x610F]),
     '':::'', (''::: warning '' @ utf8 [0x6CE8, 0x610F]), '':::'']"
  "frontmatter guides_react_use_api_md =
    Some [''outline: deep'']"
  by (simp_all add: guides_react_use_api_md_def scan)

lemma part_000_scan [doc_scan]:
  "block_lines part_000 =
    [''---'', ''outline: deep'', ''---'']"
  "container_lines (verbatim part_000) =
    []"
  "frontmatter part_000 =
    Some [''outline: deep'']"
  by (simp_all add: part_000_def scan)

lemma part_000_2_scan [doc_scan]:
  "block_lines part_000_2 =
    [''---'', ''outline: deep'', ''---'']"
  "container_lines (verbatim part_000_2) =
    []"
  "frontmatter part_000_2 =
    Some [''outline: deep'']"
  by (simp_all add: part_000_2_def scan)

lemma part_000_3_scan [doc_scan]:
  "block_lines part_000_3 =
    [''---'', ''outline: deep'', ''---'']"
  "container_lines (verbatim part_000_3) =
    []"
  "frontmatter part_000_3 =
    Some [''outline: deep'']"
  by (simp_all add: part_000_3_def scan)

lemma part_001_scan [doc_scan]:
  "block_lines part_001 =
    [''---'', ''outline: deep'', ''---'',
     (''::: tip Next.js '' @ utf8 [0x76F8, 0x5173, 0x6587, 0x6863]), '':::'']"
  "container_lines (verbatim part_001) =
    [(''::: tip Next.js '' @ utf8 [0x76F8, 0x5173, 0x6587, 0x6863]), '':::'']"
  "frontmatter part_001 =
    Some [''outline: deep'']"
  by (simp_all add: part_001_def scan)

lemma part_002_scan [doc_scan]:
  "block_lines part_002 =
    [''---'', ''outline: deep'', ''---'',
     (''::: warning '' @ utf8 [0x91CD, 0x8981, 0x63D0, 0x793A]), '':::'',
     (''::: tip '' @ utf8 [0x63D0, 0x793A]), '':::'']"
  "container_lines (verbatim part_002) =
    [(''::: warning '' @ utf8 [0x91CD, 0x8981, 0x63D0, 0x793A]), '':::'',
     (''::: tip '' @ utf8 [0x63D0, 0x793A]), '':::'']"
  "frontmatter part_002 =
    Some [''outline: deep'']"
  by (simp_all add: part_002_def scan)

lemma part_003_scan [doc_scan]:
  "block_lines part_003 =
    [''---'', ''outline: deep'', ''---'']"
  "container_lines (verbatim part_003) =
    []"
  "frontmatter part_003 =
    Some [''outline: deep'']"
  by (simp_all add: part_003_def scan)

lemma part_004_scan [doc_scan]:
  "block_lines part_004 =
    [''---'', ''outline: deep'', ''---'']"
  "container_lines (verbatim part_004) =
    []"
  "frontmatter part_004 =
    Some [''outline: deep'']"
  by (simp_all add: part_004_def scan)

lemma part_005_scan [doc_scan]:
  "block_lines part_005 =
    [''---'', ''outline: deep'', ''---'', (''::: tip '' @ utf8 [0x91CD, 0x8981, 0x63D0, 0x793A]),
     '':::'', (''::: tip '' @ utf8 [0x4F7F, 0x7528, 0x573A, 0x666F]), '':::'',
     (''::: warning '' @ utf8 [0x5B89, 0x5168, 0x63D0, 0x793A]), '':::'',
     (''::: warning '' @ utf8 [0x91CD, 0x8981, 0x63D0, 0x793A]), '':::'',
     (''::: tip '' @ utf8 [0x4F7F, 0x7528, 0x573A, 0x666F]), '':::'',
     (''::: tip '' @ utf8 [0x8FC1, 0x79FB, 0x63D0, 0x793A]), '':::'',
     (''::: warning '' @ utf8 [0x6CE8, 0x610F, 0x4E8B, 0x9879]), '':::'',
     (''::: tip SEO '' @ utf8 [0x63D0, 0x793A]), '':::'',
     (''::: warning '' @ utf8 [0x91CD, 0x8981, 0x63D0, 0x793A]), '':::'',
     (''::: warning '' @ utf8 [0x5F3A, 0x70C8, 0x4E0D, 0x63A8, 0x8350]), '':::'']"
  "container_lines (verbatim part_005) =
    [(''::: tip '' @ utf8 [0x91CD, 0x8981, 0x63D0, 0x793A]), '':::'',
     (''::: tip '' @ utf8 [0x4F7F, 0x7528, 0x573A, 0x666F]), '':::'',
     (''::: warning '' @ utf8 [0x5B89, 0x5168, 0x63D0, 0x793A]), '':::'',
     (''::: warning '' @ utf8 [0x91CD, 0x8981, 0x63D0, 0x793A]), '':::'',
     (''::: tip '' @ utf8 [0x4F7F, 0x7528, 0x573A, 0x666F]), '':::'',
     (''::: tip '' @ utf8 [0x8FC1, 0x79FB, 0x63D0, 0x793A]), '':::'',
     (''::: warning '' @ utf8 [0x6CE8, 0x610F, 0x4E8B, 0x9879]), '':::'',
     (''::: tip SEO '' @ utf8 [0x63D0, 0x793A]), '':::'',
     (''::: warning '' @ utf8 [0x91CD, 0x8981, 0x63D0, 0x793A]), '':::'',
     (''::: warning '' @ utf8 [0x5F3A, 0x70C8, 0x4E0D, 0x63A8, 0x8350]), '':::'']"
  "frontmatter part_005 =
    Some [''outline: deep'']"
  by (simp_all add: part_005_def scan)

lemma part_006_scan [doc_scan]:
  "block_lines part_006 =
    [''---'', ''outline: deep'', ''---'']"
  "container_lines (verbatim part_006) =
    []"
  "frontmatter part_006 =
    Some [''outline: deep'']"
  by (simp_all add: part_006_def scan)

lemma part_007_scan [doc_scan]:
  "block_lines part_007 =
    [''---'', ''outline: deep'', ''---'']"
  "container_lines (verbatim part_007) =
    []"
  "frontmatter part_007 =
    Some [''outline: deep'']"
  by (simp_all add: part_007_def scan)

lemma part_010_scan [doc_scan]:
  "block_lines part_010 =
    [''---'', ''outline: deep'', ''---'']"
  "container_lines (verbatim part_010) =
    []"
  "frontmatter part_010 =
    Some [''outline: deep'']"
  by (simp_all add: part_010_def scan)

lemma part_010_2_scan [doc_scan]:
  "block_lines part_010_2 =
    [''---'', ''# https://vitepress.dev/reference/default-theme-home-page'', ''layout: home'',
     '''', ''hero:'', (''  name: '' @ utf8 [0x22, 0x6280, 0x672F, 0x6587, 0x6863, 0x22]),
     (''  text: '' @ utf8 [0x22, 0x5B66, 0x4E60, 0x4E0E, 0x53C2, 0x8003, 0x22]),
     (''  tagline: '' @ utf8 [0x6DB5, 0x76D6] @ '' React'' @ utf8 [0x3001] @ ''Next.js''
       @ utf8 [0x3001] @ ''Node.js'' @ utf8 [0x3001] @ ''Go '' @ utf8 [0x7B49, 0x6280, 0x672F,
       0x6808, 0x7684, 0x5B66, 0x4E60, 0x6307, 0x5357, 0x548C, 0x53C2, 0x8003, 0x6587, 0x6863]),
     ''  actions:'', ''    - theme: brand'',
     (''      text: '' @ utf8 [0x5F00, 0x59CB, 0x5B66, 0x4E60]), ''      link: /guides/'',
     ''    - theme: alt'', (''      text: '' @ utf8 [0x67E5, 0x770B, 0x793A, 0x4F8B]),
     ''      link: /examples/'', '''', ''features:'',
     (''  - title: '' @ utf8 [0x5B66, 0x4E60, 0x6307, 0x5357]),
     (''    details: '' @ utf8 [0x7CFB, 0x7EDF, 0x5316, 0x7684, 0x5B66, 0x4E60, 0x6559, 0x7A0B,
       0xFF0C, 0x4ECE, 0x57FA, 0x7840, 0x5230, 0x8FDB, 0x9636, 0xFF0C, 0x6DB5, 0x76D6] @ '' React''
       @ utf8 [0x3001] @ ''Next.js'' @ utf8 [0x3001] @ ''Node.js'' @ utf8 [0x3001] @ ''Go ''
       @ utf8 [0x7B49, 0x6280, 0x672F, 0x6808]),
     ''    link: /guides/'', (''  - title: API '' @ utf8 [0x53C2, 0x8003]),
     (''    details: '' @ utf8 [0x8BE6, 0x7EC6, 0x7684] @ '' API '' @ utf8 [0x6587, 0x6863,
       0x548C, 0x53C2, 0x8003, 0xFF0C, 0x5E2E, 0x52A9, 0x5FEB, 0x901F, 0x67E5, 0x627E, 0x548C,
       0x4F7F, 0x7528, 0x5404, 0x79CD] @ '' API''),
     ''    link: /api/'', (''  - title: '' @ utf8 [0x6700, 0x4F73, 0x5B9E, 0x8DF5]),
     (''    details: '' @ utf8 [0x7ECF, 0x8FC7, 0x5B9E, 0x8DF5, 0x9A8C, 0x8BC1, 0x7684, 0x5F00,
       0x53D1, 0x5EFA, 0x8BAE, 0x548C, 0x6700, 0x4F73, 0x5B9E, 0x8DF5, 0xFF0C, 0x63D0, 0x5347,
       0x4EE3, 0x7801, 0x8D28, 0x91CF, 0x548C, 0x5F00, 0x53D1, 0x6548, 0x7387]),
     ''    link: /best-practices/'', ''---'']"
  "container_lines (verbatim part_010_2) =
    []"
  "frontmatter part_010_2 =
    Some [''# https://vitepress.dev/reference/default-theme-home-page'', ''layout: home'', '''',
          ''hero:'', (''  name: '' @ utf8 [0x22, 0x6280, 0x672F, 0x6587, 0x6863, 0x22]),
          (''  text: '' @ utf8 [0x22, 0x5B66, 0x4E60, 0x4E0E, 0x53C2, 0x8003, 0x22]),
          (''  tagline: '' @ utf8 [0x6DB5, 0x76D6] @ '' React'' @ utf8 [0x3001] @ ''Next.js''
            @ utf8 [0x3001] @ ''Node.js'' @ utf8 [0x3001] @ ''Go '' @ utf8 [0x7B49, 0x6280, 0x672F,
            0x6808, 0x7684, 0x5B66, 0x4E60, 0x6307, 0x5357, 0x548C, 0x53C2, 0x8003, 0x6587,
            0x6863]),
          ''  actions:'', ''    - theme: brand'',
          (''      text: '' @ utf8 [0x5F00, 0x59CB, 0x5B66, 0x4E60]), ''      link: /guides/'',
          ''    - theme: alt'', (''      text: '' @ utf8 [0x67E5, 0x770B, 0x793A, 0x4F8B]),
          ''      link: /examples/'', '''', ''features:'',
          (''  - title: '' @ utf8 [0x5B66, 0x4E60, 0x6307, 0x5357]),
          (''    details: '' @ utf8 [0x7CFB, 0x7EDF, 0x5316, 0x7684, 0x5B66, 0x4E60, 0x6559,
            0x7A0B, 0xFF0C, 0x4ECE, 0x57FA, 0x7840, 0x5230, 0x8FDB, 0x9636, 0xFF0C, 0x6DB5, 0x76D6]
            @ '' React'' @ utf8 [0x3001] @ ''Next.js'' @ utf8 [0x3001] @ ''Node.js''
            @ utf8 [0x3001] @ ''Go '' @ utf8 [0x7B49, 0x6280, 0x672F, 0x6808]),
          ''    link: /guides/'', (''  - title: API '' @ utf8 [0x53C2, 0x8003]),
          (''    details: '' @ utf8 [0x8BE6, 0x7EC6, 0x7684] @ '' API '' @ utf8 [0x6587, 0x6863,
            0x548C, 0x53C2, 0x8003, 0xFF0C, 0x5E2E, 0x52A9, 0x5FEB, 0x901F, 0x67E5, 0x627E, 0x548C,
            0x4F7F, 0x7528, 0x5404, 0x79CD] @ '' API''),
          ''    link: /api/'', (''  - title: '' @ utf8 [0x6700, 0x4F73, 0x5B9E, 0x8DF5]),
          (''    details: '' @ utf8 [0x7ECF, 0x8FC7, 0x5B9E, 0x8DF5, 0x9A8C, 0x8BC1, 0x7684,
            0x5F00, 0x53D1, 0x5EFA, 0x8BAE, 0x548C, 0x6700, 0x4F73, 0x5B9E, 0x8DF5, 0xFF0C, 0x63D0,
            0x5347, 0x4EE3, 0x7801, 0x8D28, 0x91CF, 0x548C, 0x5F00, 0x53D1, 0x6548, 0x7387]),
          ''    link: /best-practices/'']"
  by (simp_all add: part_010_2_def scan)

lemma documents_list:
  "documents =
    [examples_markdown_examples_md, guides_general_network_communication_md,
     guides_general_rendering_modes_md, guides_nextjs_app_router_md, guides_nextjs_caching_md,
     guides_nextjs_error_handling_md, guides_nextjs_index_md, guides_nextjs_route_groups_md,
     guides_nextjs_route_groups_md_2, guides_nextjs_router_handle_md,
     guides_react_hooks_index_md, guides_react_hooks_useCallback_useMemo_md,
     guides_react_hooks_useReducer_md, guides_react_hooks_useReducer_md_2,
     guides_react_hooks_useRef_md, guides_react_index_md, guides_react_use_api_md, part_000,
     part_000_2, part_000_3, part_001, part_002, part_003, part_004, part_005, part_006,
     part_007, part_010, part_010_2]"
  by (simp add: documents_def source_files_def)

lemma pages_bodies:
  "map body pages = documents"
  unfolding documents_list by (simp add: pages_def)


section \<open>Evaluating the configuration modules\<close>

lemma part_009_nav_entries:
  "nav part_009 =
    [Some (utf8 [0x9996, 0x9875], ''/''),
     Some (utf8 [0x5B66, 0x4E60, 0x6307, 0x5357], ''/guides/''),
     Some (''API '' @ utf8 [0x53C2, 0x8003], ''/api/''),
     Some (utf8 [0x6700, 0x4F73, 0x5B9E, 0x8DF5], ''/best-practices/''),
     Some (utf8 [0x793A, 0x4F8B], ''/examples/'')]"
  by (simp add: nav_def options_def part_009_def part_009_options_def part_009_nav_def text_link_def)

lemma part_009_sidebar_keys:
  "sidebar_keys part_009 =
    [''/guides/'', ''/api/'', ''/best-practices/'', ''/examples/'', ''/meta/'']"
  by (simp add: sidebar_keys_def sidebar_def options_def part_009_def part_009_options_def part_009_sidebar_def)

lemma part_009_sidebar_items:
  "sidebar_items part_009 =
    [(''/guides/'', Some (utf8 [0x6307, 0x5357, 0x9996, 0x9875], ''/guides/'')),
     (''/guides/'', Some (''React '' @ utf8 [0x6307, 0x5357], ''/guides/react/'')),
     (''/guides/'', Some (''use() API'', ''/guides/react/use-api'')),
     (''/guides/'', Some (''Next.js '' @ utf8 [0x6307, 0x5357], ''/guides/nextjs/'')),
     (''/guides/'',
      Some (''App Router '' @ utf8 [0x6587, 0x4EF6, 0x8DEF, 0x7531, 0x7CFB, 0x7EDF],
            ''/guides/nextjs/app-router'')),
     (''/guides/'',
      Some (''App Router '' @ utf8 [0x8DEF, 0x7531, 0x5BFC, 0x822A],
            ''/guides/nextjs/navigation'')),
     (''/guides/'', Some (''Node.js '' @ utf8 [0x6307, 0x5357], ''/guides/nodejs/'')),
     (''/guides/'', Some (''Go '' @ utf8 [0x6307, 0x5357], ''/guides/go/'')),
     (''/api/'', Some (''API '' @ utf8 [0x9996, 0x9875], ''/api/'')),
     (''/api/'', Some (''React API'', ''/api/react/'')),
     (''/api/'', Some (''Node.js API'', ''/api/nodejs/'')),
     (''/best-practices/'',
      Some (utf8 [0x6700, 0x4F73, 0x5B9E, 0x8DF5, 0x9996, 0x9875],
            ''/best-practices/'')),
     (''/best-practices/'',
      Some (''React '' @ utf8 [0x6700, 0x4F73, 0x5B9E, 0x8DF5],
            ''/best-practices/react/'')),
     (''/best-practices/'',
      Some (''Node.js '' @ utf8 [0x6700, 0x4F73, 0x5B9E, 0x8DF5],
            ''/best-practices/nodejs/'')),
     (''/examples/'', Some (utf8 [0x793A, 0x4F8B, 0x9996, 0x9875], ''/examples/'')),
     (''/examples/'',
      Some (''Markdown '' @ utf8 [0x793A, 0x4F8B],
            ''/examples/markdown-examples'')),
     (''/examples/'', Some (''API '' @ utf8 [0x793A, 0x4F8B], ''/examples/api-examples'')),
     (''/meta/'', Some (utf8 [0x5143, 0x6587, 0x6863, 0x9996, 0x9875], ''/meta/'')),
     (''/meta/'',
      Some (''AI '' @ utf8 [0x7F16, 0x5199, 0x6307, 0x5357],
            ''/meta/ai-writing-guide''))]"
  by (simp add: sidebar_items_def sidebar_def options_def part_009_def part_009_options_def part_009_sidebar_def text_link_def)

lemma config_mts_nav_entries:
  "nav config_mts =
    [Some (utf8 [0x9996, 0x9875], ''/''),
     Some (utf8 [0x5B66, 0x4E60, 0x6307, 0x5357], ''/guides/''),
     Some (''API '' @ utf8 [0x53C2, 0x8003], ''/api/''),
     Some (utf8 [0x6700, 0x4F73, 0x5B9E, 0x8DF5], ''/best-practices/''),
     Some (utf8 [0x793A, 0x4F8B], ''/examples/'')]"
  by (simp add: nav_def options_def config_mts_def config_mts_options_def config_mts_nav_def text_link_def)

lemma config_mts_sidebar_keys:
  "sidebar_keys config_mts =
    [''/guides/'', ''/api/'', ''/best-practices/'', ''/examples/'', ''/meta/'']"
  by (simp add: sidebar_keys_def sidebar_def options_def config_mts_def config_mts_options_def config_mts_sidebar_def)

lemma config_mts_sidebar_items:
  "sidebar_items config_mts =
    [(''/guides/'', Some (utf8 [0x6307, 0x5357, 0x9996, 0x9875], ''/guides/'')),
     (''/guides/'',
      Some (utf8 [0x524D, 0x7AEF, 0x6E32, 0x67D3, 0x6A21, 0x5F0F, 0xFF1A] @ ''CSR'' @ utf8 [0x3001] @ ''SSR'' @ utf8 [0x3001] @ ''SSG'',
            ''/guides/general/rendering-modes'')),
     (''/guides/'',
      Some (utf8 [0x7F51, 0x7EDC, 0x4E0E, 0x901A, 0x4FE1, 0xFF1A] @ ''HTTP'' @ utf8 [0x3001, 0x7F13, 0x5B58, 0x3001] @ ''HTTPS'',
            ''/guides/general/network-communication'')),
     (''/guides/'',
      Some (utf8 [0x8BA4, 0x8BC1, 0x673A, 0x5236, 0xFF1A] @ ''Cookie'' @ utf8 [0x3001] @ ''Token'' @ utf8 [0x3001] @ ''Session'',
            ''/guides/general/authentication'')),
     (''/guides/'', Some (''React '' @ utf8 [0x6307, 0x5357], ''/guides/react/'')),
     (''/guides/'', Some (''Hooks '' @ utf8 [0x6982, 0x89C8], ''/guides/react/hooks/'')),
     (''/guides/'', Some (''use() API'', ''/guides/react/use-api'')),
     (''/guides/'', Some (''useState'', ''/guides/react/hooks/useState'')),
     (''/guides/'', Some (''useReducer'', ''/guides/react/hooks/useReducer'')),
     (''/guides/'', Some (''useEffect'', ''/guides/react/hooks/useEffect'')),
     (''/guides/'', Some (''useRef'', ''/guides/react/hooks/useRef'')),
     (''/guides/'', Some (''useCallback/useMemo'', ''/guides/react/hooks/useCallback-useMemo'')),
     (''/guides/'',
      Some (utf8 [0x81EA, 0x5B9A, 0x4E49] @ '' Hooks'',
            ''/guides/react/hooks/custom-hooks'')),
     (''/guides/'', Some (''Next.js '' @ utf8 [0x6307, 0x5357], ''/guides/nextjs/'')),
     (''/guides/'',
      Some (''App Router '' @ utf8 [0x6587, 0x4EF6, 0x8DEF, 0x7531, 0x7CFB, 0x7EDF],
            ''/guides/nextjs/app-router'')),
     (''/guides/'',
      Some (''App Router '' @ utf8 [0x8DEF, 0x7531, 0x5BFC, 0x822A],
            ''/guides/nextjs/navigation'')),
     (''/guides/'', Some (utf8 [0x8DEF, 0x7531, 0x7EC4], ''/guides/nextjs/route-groups'')),
     (''/guides/'',
      Some (utf8 [0x670D, 0x52A1, 0x7AEF, 0x8DEF, 0x7531, 0x5904, 0x7406, 0x7A0B, 0x5E8F],
            ''/guides/nextjs/router-handle'')),
     (''/guides/'',
      Some (''Proxy'' @ utf8 [0xFF08, 0x4EE3, 0x7406, 0xFF09],
            ''/guides/nextjs/proxy'')),
     (''/guides/'',
      Some (utf8 [0x6570, 0x636E, 0x83B7, 0x53D6],
            ''/guides/nextjs/data-fetching'')),
     (''/guides/'', Some (utf8 [0x7F13, 0x5B58, 0x673A, 0x5236], ''/guides/nextjs/caching'')),
     (''/guides/'', Some (''Middleware'', ''/guides/nextjs/middleware'')),
     (''/guides/'',
      Some (utf8 [0x9519, 0x8BEF, 0x5904, 0x7406],
            ''/guides/nextjs/error-handling'')),
     (''/guides/'', Some (''Node.js '' @ utf8 [0x6307, 0x5357], ''/guides/nodejs/'')),
     (''/guides/'', Some (''Go '' @ utf8 [0x6307, 0x5357], ''/guides/go/'')),
     (''/api/'', Some (''API '' @ utf8 [0x9996, 0x9875], ''/api/'')),
     (''/api/'', Some (''React API'', ''/api/react/'')),
     (''/api/'', Some (''Node.js API'', ''/api/nodejs/'')),
     (''/best-practices/'',
      Some (utf8 [0x6700, 0x4F73, 0x5B9E, 0x8DF5, 0x9996, 0x9875],
            ''/best-practices/'')),
     (''/best-practices/'',
      Some (''React '' @ utf8 [0x6700, 0x4F73, 0x5B9E, 0x8DF5],
            ''/best-practices/react/'')),
     (''/best-practices/'',
      Some (''Node.js '' @ utf8 [0x6700, 0x4F73, 0x5B9E, 0x8DF5],
            ''/best-practices/nodejs/'')),
     (''/examples/'', Some (utf8 [0x793A, 0x4F8B, 0x9996, 0x9875], ''/examples/'')),
     (''/examples/'',
      Some (''Markdown '' @ utf8 [0x793A, 0x4F8B],
            ''/examples/markdown-examples'')),
     (''/examples/'', Some (''API '' @ utf8 [0x793A, 0x4F8B], ''/examples/api-examples'')),
     (''/meta/'', Some (utf8 [0x5143, 0x6587, 0x6863, 0x9996, 0x9875], ''/meta/'')),
     (''/meta/'',
      Some (''AI '' @ utf8 [0x7F16, 0x5199, 0x6307, 0x5357],
            ''/meta/ai-writing-guide''))]"
  by (simp add: sidebar_items_def sidebar_def options_def config_mts_def config_mts_options_def config_mts_sidebar_def text_link_def)



section \<open>What the source files execute\<close>

lemma config_methods:
  "methods (options part_009) = []"
  "methods (options part_008) = []"
  "map dotted (methods (options config_mts)) = [''vite.build.rollupOptions.output.manualChunks'']"
  by (simp_all add: options_def part_009_def part_009_options_def part_009_nav_def
      part_009_sidebar_def part_008_def part_008_options_def part_008_nav_def
      part_008_sidebar_def part_008_vite_def config_mts_def config_mts_options_def
      config_mts_nav_def config_mts_sidebar_def config_mts_vite_def)

lemma source_files_executable_parts:
  "list_all
     (\<lambda>(p, f). executable_parts f =
        (if p = ''src/.vitepress/config.mts''
         then [''vite.build.rollupOptions.output.manualChunks''] else []))
     source_files"
  unfolding source_files_def
  by (simp add: config_methods script_lines_def doc_scan lstrip_def)

text \<open>
  Claim C1, as stated: every source file is prose or a declarative data literal, and no
  source file defines an executable function. It fails at the configuration module
  \<^verbatim>\<open>src/.vitepress/config.mts\<close>, whose build options define the function
  \<^verbatim>\<open>manualChunks\<close>.
\<close>

theorem config_defines_a_function_counterexample:
  "(''src/.vitepress/config.mts'', Config config_mts) \<in> set source_files
   \<and> executable_parts (Config config_mts) = [''vite.build.rollupOptions.output.manualChunks'']
   \<and> executable_parts (Config config_mts) \<noteq> []"
  by (simp add: source_files_def config_methods)

text \<open>
  Claim C1, amended. Every source file is a Markdown file or a configuration module. The only
  executable function that any of them defines is the build option \<^verbatim>\<open>manualChunks\<close> of
  \<^verbatim>\<open>src/.vitepress/config.mts\<close>: every other option value of the three modules is a data
  literal, and no page has a script element at block level.
\<close>

theorem only_manualChunks_is_executable:
  assumes "(p, f) \<in> set source_files"
  shows "executable_parts f =
           (if p = ''src/.vitepress/config.mts''
            then [''vite.build.rollupOptions.output.manualChunks''] else [])"
proof -
  from source_files_executable_parts assms
  have "case (p, f) of (p, f) \<Rightarrow> executable_parts f =
           (if p = ''src/.vitepress/config.mts''
            then [''vite.build.rollupOptions.output.manualChunks''] else [])"
    unfolding list_all_iff by (rule bspec)
  then show ?thesis by simp
qed

theorem only_manualChunks_is_executable_witness:
  "(''src/guides/general/rendering-modes.md'', Markdown [guides_general_rendering_modes_md])
     \<in> set source_files
   \<and> executable_parts (Markdown [guides_general_rendering_modes_md]) = []"
proof -
  have m: "(''src/guides/general/rendering-modes.md'',
            Markdown [guides_general_rendering_modes_md]) \<in> set source_files"
    by (simp add: source_files_def)
  from only_manualChunks_is_executable[OF m]
  have "executable_parts (Markdown [guides_general_rendering_modes_md]) = []"
    by simp
  with m show ?thesis by (intro conjI)
qed


section \<open>Pages and routes\<close>








section \<open>The sidebar\<close>

lemma config_mts_sections_ok: "list_all section_ok (sidebar config_mts)"
  by (simp add: sidebar_def options_def config_mts_def config_mts_options_def
      config_mts_sidebar_def section_ok_def is_group_def labelled_def text_link_def
      endsWith_def utf8_nonempty)

text \<open>
  Claim C3. The sidebar of the configuration maps URL paths to lists of labelled links. Its
  keys are the five section paths. Every key begins and ends with a slash, the value under it
  is an array of groups (objects with a text and an array of items), and every leaf item that
  can be reached below it carries a non-empty text and a link that begins with a slash.
\<close>

theorem sidebar_sections_well_formed:
  assumes "(k, v) \<in> set (sidebar config_mts)"
  shows "sidebar_keys config_mts =
           [''/guides/'', ''/api/'', ''/best-practices/'', ''/examples/'', ''/meta/'']
         \<and> startsWith k ''/'' \<and> endsWith k ''/''
         \<and> (\<exists>gs. v = Arr gs
               \<and> (\<forall>g \<in> set gs. \<exists>t xs. field ''text'' g = Some (Str t)
                                        \<and> field ''items'' g = Some (Arr xs)))
         \<and> (\<forall>i \<in> set (leaves v).
               \<exists>t l. text_link i = Some (t, l) \<and> t \<noteq> [] \<and> startsWith l ''/'')"
proof -
  from assms config_mts_sections_ok have ok: "section_ok (k, v)"
    by (simp add: list_all_iff)
  from ok have keys: "startsWith k ''/'' \<and> endsWith k ''/''"
    by (simp add: section_ok_def)
  from ok obtain gs where gs: "v = Arr gs" "list_all is_group gs"
    by (auto simp: section_ok_def split: jsval.splits)
  have groups: "\<exists>t xs. field ''text'' g = Some (Str t) \<and> field ''items'' g = Some (Arr xs)"
    if "g \<in> set gs" for g
  proof -
    from gs(2) that have "is_group g" by (simp add: list_all_iff)
    then show ?thesis
      by (auto simp: is_group_def split: option.splits jsval.splits)
  qed
  have items: "\<exists>t l. text_link i = Some (t, l) \<and> t \<noteq> [] \<and> startsWith l ''/''"
    if "i \<in> set (leaves v)" for i
  proof -
    from ok that have "labelled i" by (simp add: section_ok_def list_all_iff)
    then show ?thesis
      by (auto simp: labelled_def split: option.splits)
  qed
  from keys gs(1) groups items config_mts_sidebar_keys show ?thesis by blast
qed

theorem sidebar_sections_well_formed_witness:
  "(''/meta/'',
    Arr [Obj [(''text'', Str (utf8 [0x5143, 0x6587, 0x6863])),
              (''items'', Arr [
                 Obj [(''text'', Str (utf8 [0x5143, 0x6587, 0x6863, 0x9996, 0x9875])),
                      (''link'', Str ''/meta/'')],
                 Obj [(''text'', Str (''AI '' @ utf8 [0x7F16, 0x5199, 0x6307, 0x5357])),
                      (''link'', Str ''/meta/ai-writing-guide'')]])]])
     \<in> set (sidebar config_mts)
   \<and> startsWith ''/meta/'' ''/'' \<and> endsWith ''/meta/'' ''/''
   \<and> text_link (Obj [(''text'', Str (''AI '' @ utf8 [0x7F16, 0x5199, 0x6307, 0x5357])),
                      (''link'', Str ''/meta/ai-writing-guide'')])
       = Some (''AI '' @ utf8 [0x7F16, 0x5199, 0x6307, 0x5357], ''/meta/ai-writing-guide'')"
proof -
  define v where "v =
    Arr [Obj [(''text'', Str (utf8 [0x5143, 0x6587, 0x6863])),
              (''items'', Arr [
                 Obj [(''text'', Str (utf8 [0x5143, 0x6587, 0x6863, 0x9996, 0x9875])),
                      (''link'', Str ''/meta/'')],
                 Obj [(''text'', Str (''AI '' @ utf8 [0x7F16, 0x5199, 0x6307, 0x5357])),
                      (''link'', Str ''/meta/ai-writing-guide'')]])]]"
  have m: "(''/meta/'', v) \<in> set (sidebar config_mts)"
    by (simp add: v_def sidebar_def options_def config_mts_def config_mts_options_def
        config_mts_sidebar_def)
  from sidebar_sections_well_formed[OF m]
  have "startsWith ''/meta/'' ''/'' \<and> endsWith ''/meta/'' ''/''"
    by blast
  with m show ?thesis
    by (simp add: v_def text_link_def)
qed


section \<open>The options of the configuration\<close>

lemma config_mts_methods:
  "methods (options config_mts)
     = [''vite'', ''build'', ''rollupOptions'', ''output'', ''manualChunks''] # []"
  by (simp add: options_def config_mts_def config_mts_options_def config_mts_nav_def
      config_mts_sidebar_def config_mts_vite_def)

text \<open>
  Claim C4, as stated: the repository configures the site generator solely via declarative
  options. It fails in the word solely. One option of the configuration object is not data
  but a function: the build option \<^verbatim>\<open>vite.build.rollupOptions.output.manualChunks\<close>.
\<close>

theorem function_valued_option_counterexample:
  "at_path [''vite'', ''build'', ''rollupOptions'', ''output'', ''manualChunks'']
     (options config_mts) = Some (Method manualChunks)
   \<and> methods (options config_mts) \<noteq> []"
  by (simp add: config_mts_methods)
    (simp add: options_def config_mts_def config_mts_options_def config_mts_vite_def)

text \<open>
  Claim C4, amended. The repository configures the site generator through the options of one
  object, the argument of \<^verbatim>\<open>defineConfig\<close>. Every value in that object is declarative data,
  with one exception, the function under \<^verbatim>\<open>vite.build.rollupOptions.output.manualChunks\<close>.
  The object defines each kind of option the specification lists: the title (the four
  characters U+6280 U+672F U+6587 U+6863), a non-empty description, the base path \<^verbatim>\<open>/\<close>, a
  sidebar whose five sections are non-empty arrays, and the build flags
  \<^verbatim>\<open>minify = 'esbuild'\<close> and \<^verbatim>\<open>sourcemap = false\<close>; none of these listed options holds a
  function.
\<close>

theorem config_declarative_except_manualChunks:
  "default_export config_mts = Call ''defineConfig'' (Literal (options config_mts))
   \<and> map fst (entries (Some (options config_mts)))
       = [''title'', ''description'', ''base'', ''mermaid'', ''vite'', ''themeConfig'']
   \<and> field ''title'' (options config_mts)
       = Some (Str (utf8 [0x6280, 0x672F, 0x6587, 0x6863]))
   \<and> (\<exists>d. field ''description'' (options config_mts) = Some (Str d) \<and> d \<noteq> [])
   \<and> field ''base'' (options config_mts) = Some (Str ''/'')
   \<and> sidebar_keys config_mts
       = [''/guides/'', ''/api/'', ''/best-practices/'', ''/examples/'', ''/meta/'']
   \<and> list_all (\<lambda>(k, v). case v of Arr gs \<Rightarrow> gs \<noteq> [] | _ \<Rightarrow> False) (sidebar config_mts)
   \<and> at_path [''vite'', ''build'', ''minify''] (options config_mts) = Some (Str ''esbuild'')
   \<and> at_path [''vite'', ''build'', ''sourcemap''] (options config_mts) = Some (Bool False)
   \<and> methods (Obj (filter (\<lambda>(k, v). k \<in> set [''title'', ''description'', ''base''])
                       (entries (Some (options config_mts))))) = []
   \<and> concat (map (\<lambda>(k, v). methods v) (sidebar config_mts)) = []
   \<and> methods (options config_mts)
       = [''vite'', ''build'', ''rollupOptions'', ''output'', ''manualChunks''] # []"
proof -
  have export: "default_export config_mts = Call ''defineConfig'' (Literal (options config_mts))"
    by (simp add: options_def config_mts_def)
  have top: "map fst (entries (Some (options config_mts)))
       = [''title'', ''description'', ''base'', ''mermaid'', ''vite'', ''themeConfig'']"
    "field ''title'' (options config_mts) = Some (Str (utf8 [0x6280, 0x672F, 0x6587, 0x6863]))"
    "\<exists>d. field ''description'' (options config_mts) = Some (Str d) \<and> d \<noteq> []"
    "field ''base'' (options config_mts) = Some (Str ''/'')"
    "methods (Obj (filter (\<lambda>(k, v). k \<in> set [''title'', ''description'', ''base''])
                       (entries (Some (options config_mts))))) = []"
    by (simp_all add: options_def config_mts_def config_mts_options_def utf8_nonempty)
  have side: "list_all (\<lambda>(k, v). case v of Arr gs \<Rightarrow> gs \<noteq> [] | _ \<Rightarrow> False) (sidebar config_mts)"
    "concat (map (\<lambda>(k, v). methods v) (sidebar config_mts)) = []"
    by (simp_all add: sidebar_def options_def config_mts_def config_mts_options_def
        config_mts_sidebar_def)
  have build: "at_path [''vite'', ''build'', ''minify''] (options config_mts) = Some (Str ''esbuild'')"
    "at_path [''vite'', ''build'', ''sourcemap''] (options config_mts) = Some (Bool False)"
    by (simp_all add: options_def config_mts_def config_mts_options_def config_mts_vite_def)
  from export top side build config_mts_sidebar_keys config_mts_methods show ?thesis
    by (intro conjI)
qed


section \<open>Diagrams\<close>

text \<open>
  Claim C5 says that diagrams are rendered from embedded blocks: the configuration declares
  options for the diagram plugin, the plugin is applied to the configuration, and a page
  embeds a \<^verbatim>\<open>mermaid\<close> block. The module that the site generator loads declares the options
  and the page \<^verbatim>\<open>src/examples/markdown-examples.md\<close> embeds one such block at block level,
  but the module neither imports \<^verbatim>\<open>withMermaid\<close> nor calls it: its export is the bare
  \<^verbatim>\<open>defineConfig\<close> call, followed by the closing parenthesis of a call that was never
  opened. Both earlier versions of the module apply the plugin.
\<close>

theorem mermaid_declared_but_not_applied:
  "field ''mermaid'' (options config_mts) = Some (Obj [(''theme'', Str ''default'')])
   \<and> imported config_mts = [(''defineConfig'', ''vitepress'')]
   \<and> callees (default_export config_mts) = [''defineConfig'']
   \<and> residue config_mts = '')''
   \<and> \<not> plugin_applied config_mts
   \<and> plugin_applied part_008
   \<and> plugin_applied part_009
   \<and> field ''mermaid'' (options part_009) = Some (Obj [])
   \<and> fences 0 examples_markdown_examples_md = [''md'', ''js{4}'', ''md'', ''md'', ''mermaid'']
   \<and> diagram_blocks examples_markdown_examples_md = 1"
proof -
  have new: "field ''mermaid'' (options config_mts) = Some (Obj [(''theme'', Str ''default'')])"
    "imported config_mts = [(''defineConfig'', ''vitepress'')]"
    "callees (default_export config_mts) = [''defineConfig'']"
    "residue config_mts = '')''"
    "\<not> plugin_applied config_mts"
    by (simp_all add: plugin_applied_def options_def config_mts_def config_mts_options_def)
  have old: "plugin_applied part_008" "plugin_applied part_009"
    "field ''mermaid'' (options part_009) = Some (Obj [])"
    by (simp_all add: plugin_applied_def options_def part_008_def part_009_def
        part_009_options_def)
  have f: "fences 0 examples_markdown_examples_md = [''md'', ''js{4}'', ''md'', ''md'', ''mermaid'']"
    by (simp add: examples_markdown_examples_md_def scan)
  then have page: "diagram_blocks examples_markdown_examples_md = 1"
    by (simp add: diagram_blocks_def)
  from new old f page show ?thesis by (intro conjI)
qed


section \<open>Frontmatter of the pages\<close>

lemma documents_frontmatter:
  "list_all
     (\<lambda>d. ''---'' \<notin> set (block_lines d)
          \<or> (case frontmatter d of Some fm \<Rightarrow> list_all yaml_line fm | None \<Rightarrow> False))
     documents"
  unfolding documents_list
  apply (simp only: list_all_Nil_iff list_all_Cons_iff doc_scan)
  apply (simp add: yaml_line_def yaml_entry_def key_char_def blank_def lstrip_def)
  done

text \<open>
  Claim C6. Frontmatter sits at the top of a document. Whenever a document contains a
  frontmatter delimiter, a line \<^verbatim>\<open>---\<close> outside code fences, its first line is the opening
  delimiter, a later line is the closing delimiter with no delimiter in between, and the lines
  between the two are YAML metadata: keys with values such as \<^verbatim>\<open>outline: deep\<close> and
  \<^verbatim>\<open>layout: home\<close>, with blank lines and comments among them.
\<close>

theorem frontmatter_at_top:
  assumes "d \<in> set documents" and "''---'' \<in> set (block_lines d)"
  shows "\<exists>fm rest. d = Line ''---'' # map Line fm @ Line ''---'' # rest
            \<and> ''---'' \<notin> set fm \<and> (\<forall>s \<in> set fm. yaml_line s)"
proof -
  from documents_frontmatter assms(1)
  have "''---'' \<notin> set (block_lines d)
        \<or> (case frontmatter d of Some fm \<Rightarrow> list_all yaml_line fm | None \<Rightarrow> False)"
    unfolding list_all_iff by (rule bspec)
  with assms(2) obtain fm where fm: "frontmatter d = Some fm" "list_all yaml_line fm"
    by (auto split: option.splits)
  from frontmatter_shape[OF fm(1)] obtain rest where
    "d = Line ''---'' # map Line fm @ Line ''---'' # rest" and "''---'' \<notin> set fm"
    by blast
  with fm(2) show ?thesis
    unfolding list_all_iff by blast
qed

theorem frontmatter_at_top_witness:
  "guides_general_rendering_modes_md \<in> set documents
   \<and> ''---'' \<in> set (block_lines guides_general_rendering_modes_md)
   \<and> frontmatter guides_general_rendering_modes_md = Some [''outline: deep'']
   \<and> (\<exists>fm rest. guides_general_rendering_modes_md
                    = Line ''---'' # map Line fm @ Line ''---'' # rest
                  \<and> ''---'' \<notin> set fm \<and> list_all yaml_line fm)"
proof -
  have m: "guides_general_rendering_modes_md \<in> set documents"
    unfolding documents_list by simp
  have n: "''---'' \<in> set (block_lines guides_general_rendering_modes_md)"
    by (simp add: guides_general_rendering_modes_md_scan)
  have f: "frontmatter guides_general_rendering_modes_md = Some [''outline: deep'']"
    by (simp add: guides_general_rendering_modes_md_scan)
  from frontmatter_at_top[OF m n] m n f show ?thesis
    unfolding list_all_iff by (intro conjI) simp_all
qed


section \<open>Containers of the pages\<close>

lemma documents_containers_balanced:
  "list_all
     (\<lambda>d. balanced 0 (container_lines (block_lines d))
          \<and> balanced 0 (container_lines (verbatim d)))
     documents"
  unfolding documents_list
  apply (simp only: list_all_Nil_iff list_all_Cons_iff doc_scan)
  apply (simp add: container_lines_def container_open_def container_close_def blank_def
      lstrip_def)
  done

text \<open>
  Claim C7. In every Markdown document the container delimiter lines are balanced: every
  container that a line beginning with \<^verbatim>\<open>:::\<close> and a kind opens is closed by a later line of
  colons alone, before the end of the document, and no closing line stands without an open
  container. This holds for the delimiter lines that the parser sees, those outside code
  fences, and also for all lines of the document that begin with \<^verbatim>\<open>:::\<close>, sample text
  included.
\<close>

theorem containers_balanced:
  assumes "d \<in> set documents"
  shows "balanced 0 (container_lines (block_lines d))
         \<and> balanced 0 (container_lines (verbatim d))"
  using documents_containers_balanced assms
  unfolding list_all_iff by (rule bspec)

theorem containers_balanced_witness:
  "guides_nextjs_router_handle_md \<in> set documents
   \<and> length (container_lines (block_lines guides_nextjs_router_handle_md)) = 12
   \<and> balanced 0 (container_lines (block_lines guides_nextjs_router_handle_md))
   \<and> balanced 0 (container_lines (verbatim guides_nextjs_router_handle_md))"
proof -
  have m: "guides_nextjs_router_handle_md \<in> set documents"
    unfolding documents_list by simp
  have n: "length (container_lines (block_lines guides_nextjs_router_handle_md)) = 12"
    by (simp add: guides_nextjs_router_handle_md_scan container_lines_def)
  from containers_balanced[OF m] m n show ?thesis by (intro conjI) simp_all
qed


section \<open>Navigation\<close>

text \<open>
  Claim C8. The navigation bar of the configuration is a fixed list of five labelled links:
  the home page at \<^verbatim>\<open>/\<close>, the guides at \<^verbatim>\<open>/guides/\<close>, the API reference at \<^verbatim>\<open>/api/\<close>, the
  best practices at \<^verbatim>\<open>/best-practices/\<close> and the examples at \<^verbatim>\<open>/examples/\<close>. Every entry
  other than the home page links to a key of the sidebar object.
\<close>

theorem nav_entries_are_sidebar_sections:
  "nav config_mts =
     [Some (utf8 [0x9996, 0x9875], ''/''),
      Some (utf8 [0x5B66, 0x4E60, 0x6307, 0x5357], ''/guides/''),
      Some (''API '' @ utf8 [0x53C2, 0x8003], ''/api/''),
      Some (utf8 [0x6700, 0x4F73, 0x5B9E, 0x8DF5], ''/best-practices/''),
      Some (utf8 [0x793A, 0x4F8B], ''/examples/'')]
   \<and> (\<forall>e \<in> set (nav config_mts).
         e \<noteq> Some (utf8 [0x9996, 0x9875], ''/'') \<longrightarrow>
         (\<exists>t l. e = Some (t, l) \<and> l \<in> set (sidebar_keys config_mts)))"
proof (intro conjI ballI impI)
  show "nav config_mts =
     [Some (utf8 [0x9996, 0x9875], ''/''),
      Some (utf8 [0x5B66, 0x4E60, 0x6307, 0x5357], ''/guides/''),
      Some (''API '' @ utf8 [0x53C2, 0x8003], ''/api/''),
      Some (utf8 [0x6700, 0x4F73, 0x5B9E, 0x8DF5], ''/best-practices/''),
      Some (utf8 [0x793A, 0x4F8B], ''/examples/'')]"
    by (simp add: config_mts_nav_entries)
next
  fix e
  assume "e \<in> set (nav config_mts)" and "e \<noteq> Some (utf8 [0x9996, 0x9875], ''/'')"
  then consider "e = Some (utf8 [0x5B66, 0x4E60, 0x6307, 0x5357], ''/guides/'')"
    | "e = Some (''API '' @ utf8 [0x53C2, 0x8003], ''/api/'')"
    | "e = Some (utf8 [0x6700, 0x4F73, 0x5B9E, 0x8DF5], ''/best-practices/'')"
    | "e = Some (utf8 [0x793A, 0x4F8B], ''/examples/'')"
    unfolding config_mts_nav_entries by auto
  then show "\<exists>t l. e = Some (t, l) \<and> l \<in> set (sidebar_keys config_mts)"
    by cases (simp_all add: config_mts_sidebar_keys)
qed

theorem nav_entries_are_sidebar_sections_witness:
  "Some (utf8 [0x5B66, 0x4E60, 0x6307, 0x5357], ''/guides/'') \<in> set (nav config_mts)
   \<and> Some (utf8 [0x5B66, 0x4E60, 0x6307, 0x5357], ''/guides/'')
       \<noteq> Some (utf8 [0x9996, 0x9875], ''/'')
   \<and> ''/guides/'' \<in> set (sidebar_keys config_mts)"
proof -
  define e where "e = Some (utf8 [0x5B66, 0x4E60, 0x6307, 0x5357], ''/guides/'')"
  have m: "e \<in> set (nav config_mts)"
    by (simp add: e_def config_mts_nav_entries)
  have n: "e \<noteq> Some (utf8 [0x9996, 0x9875], ''/'')"
    by (simp add: e_def)
  have "\<forall>e \<in> set (nav config_mts).
         e \<noteq> Some (utf8 [0x9996, 0x9875], ''/'') \<longrightarrow>
         (\<exists>t l. e = Some (t, l) \<and> l \<in> set (sidebar_keys config_mts))"
    using nav_entries_are_sidebar_sections by (rule conjunct2)
  then have "e \<noteq> Some (utf8 [0x9996, 0x9875], ''/'') \<longrightarrow>
         (\<exists>t l. e = Some (t, l) \<and> l \<in> set (sidebar_keys config_mts))"
    using m by (rule bspec)
  then have "\<exists>t l. e = Some (t, l) \<and> l \<in> set (sidebar_keys config_mts)"
    using n by (rule mp)
  then have "''/guides/'' \<in> set (sidebar_keys config_mts)"
    by (simp add: e_def)
  with m n show ?thesis by (simp add: e_def)
qed


section \<open>The chunking function\<close>

text \<open>
  Claim C9. For every module id, \<^verbatim>\<open>manualChunks\<close> returns the chunk name \<^verbatim>\<open>vendor\<close> exactly
  when the id contains the substring \<^verbatim>\<open>node_modules\<close>, and returns no chunk name
  (\<^verbatim>\<open>undefined\<close>) otherwise. The result is a function of the id alone and exists for every
  id; this function is the value of the build option
  \<^verbatim>\<open>vite.build.rollupOptions.output.manualChunks\<close> of the configuration.
\<close>

theorem manualChunks_vendor_iff_node_modules:
  "manualChunks ident =
     (if (\<exists>before after. ident = before @ ''node_modules'' @ after)
      then Some ''vendor'' else None)
   \<and> at_path [''vite'', ''build'', ''rollupOptions'', ''output'', ''manualChunks'']
         (options config_mts) = Some (Method manualChunks)"
  by (simp add: manualChunks_def js_includes_iff options_def config_mts_def
      config_mts_options_def config_mts_vite_def)


section \<open>The configuration and its earlier version\<close>

text \<open>
  Claim C10. The current configuration refines the earliest one. Both have the same title and
  the base path \<^verbatim>\<open>/\<close>, and the same five navigation entries. Every section key of the old
  sidebar is a section key of the new one, and every leaf item of the old sidebar, a text with
  a link, stands under the same section key in the new sidebar.
\<close>

theorem config_refines_part_009:
  "field ''title'' (options part_009) = Some (Str (utf8 [0x6280, 0x672F, 0x6587, 0x6863]))
   \<and> field ''title'' (options config_mts) = field ''title'' (options part_009)
   \<and> field ''base'' (options part_009) = Some (Str ''/'')
   \<and> field ''base'' (options config_mts) = Some (Str ''/'')
   \<and> nav config_mts = nav part_009
   \<and> length (nav part_009) = 5
   \<and> set (sidebar_keys part_009) \<subseteq> set (sidebar_keys config_mts)
   \<and> (\<forall>(k, i) \<in> set (sidebar_items part_009).
         (\<exists>t l. i = Some (t, l)) \<and> (k, i) \<in> set (sidebar_items config_mts))"
proof -
  have top: "field ''title'' (options part_009) = Some (Str (utf8 [0x6280, 0x672F, 0x6587, 0x6863]))"
    "field ''title'' (options config_mts) = field ''title'' (options part_009)"
    "field ''base'' (options part_009) = Some (Str ''/'')"
    "field ''base'' (options config_mts) = Some (Str ''/'')"
    by (simp_all add: options_def config_mts_def config_mts_options_def part_009_def
        part_009_options_def)
  have navs: "nav config_mts = nav part_009" "length (nav part_009) = 5"
    by (simp_all add: config_mts_nav_entries part_009_nav_entries)
  have keys: "set (sidebar_keys part_009) \<subseteq> set (sidebar_keys config_mts)"
    by (simp add: config_mts_sidebar_keys part_009_sidebar_keys)
  have items: "\<forall>(k, i) \<in> set (sidebar_items part_009).
         (\<exists>t l. i = Some (t, l)) \<and> (k, i) \<in> set (sidebar_items config_mts)"
    unfolding part_009_sidebar_items config_mts_sidebar_items by simp
  from top navs keys items show ?thesis by (intro conjI)
qed

theorem config_refines_part_009_witness:
  "(''/guides/'', Some (''use() API'', ''/guides/react/use-api'')) \<in> set (sidebar_items part_009)
   \<and> (''/guides/'', Some (''use() API'', ''/guides/react/use-api''))
       \<in> set (sidebar_items config_mts)"
proof -
  define x :: "string \<times> (string \<times> string) option"
    where "x = (''/guides/'', Some (''use() API'', ''/guides/react/use-api''))"
  have old: "x \<in> set (sidebar_items part_009)"
    by (simp add: x_def part_009_sidebar_items)
  have "\<forall>(k, i) \<in> set (sidebar_items part_009).
         (\<exists>t l. i = Some (t, l)) \<and> (k, i) \<in> set (sidebar_items config_mts)"
    using config_refines_part_009 by (elim conjE)
  then have "case x of (k, i) \<Rightarrow>
         (\<exists>t l. i = Some (t, l)) \<and> (k, i) \<in> set (sidebar_items config_mts)"
    using old by (rule bspec)
  then have "x \<in> set (sidebar_items config_mts)"
    by (simp add: x_def)
  with old show ?thesis by (simp add: x_def)
qed

end
